theory Spec2Isabelle
  imports Complex_Main "HOL-Library.Char_ord" "HOL-Library.List_Lexorder"
begin

section \<open>Python strings and built-ins used by \<open>crm/schema.py\<close>\<close>

text \<open>
  A Python \<open>str\<close> is modelled as a \<open>string\<close> whose characters are ASCII code points.
  On that range \<open>str.strip\<close> removes the ten characters for which \<open>str.isspace\<close> holds,
  \<open>str.lower\<close> maps \<open>A..Z\<close> to \<open>a..z\<close>, and the regular-expression class \<open>\d\<close> is
  \<open>0..9\<close>. Characters from 128 on are carried through unchanged: they are neither
  spaces, letters nor digits of the model.
\<close>

definition is_space :: "char \<Rightarrow> bool" where
  "is_space c \<longleftrightarrow> c \<in> set [CHR 0x09, CHR 0x0A, CHR 0x0B, CHR 0x0C, CHR 0x0D,
                          CHR 0x1C, CHR 0x1D, CHR 0x1E, CHR 0x1F, CHR 0x20]"

definition is_digit :: "char \<Rightarrow> bool" where
  "is_digit c \<longleftrightarrow> c \<in> set ''0123456789''"

text \<open>\<open>s.strip()\<close>\<close>

definition py_strip :: "string \<Rightarrow> string" where
  "py_strip s = rev (dropWhile is_space (rev (dropWhile is_space s)))"

text \<open>\<open>s.lower()\<close>\<close>

definition lower_char :: "char \<Rightarrow> char" where
  "lower_char c =
     (case map_of (zip ''ABCDEFGHIJKLMNOPQRSTUVWXYZ'' ''abcdefghijklmnopqrstuvwxyz'') c of
        Some d \<Rightarrow> d
      | None \<Rightarrow> c)"

definition py_lower :: "string \<Rightarrow> string" where
  "py_lower s = map lower_char s"

text \<open>\<open>sep.join(parts)\<close>\<close>

fun py_join :: "string \<Rightarrow> string list \<Rightarrow> string" where
  "py_join sep [] = []"
| "py_join sep [x] = x"
| "py_join sep (x # y # ys) = x @ sep @ py_join sep (y # ys)"

text \<open>\<open>str(n)\<close> for an integer: decimal digits, a minus sign for a negative number.\<close>

definition digit_char :: "nat \<Rightarrow> char" where
  "digit_char d = ''0123456789'' ! (d mod 10)"

function str_nat :: "nat \<Rightarrow> string" where
  "str_nat n = (if n < 10 then [digit_char n] else str_nat (n div 10) @ [digit_char (n mod 10)])"
  by pat_completeness auto
termination
  by (relation "measure id") auto

definition str_int :: "int \<Rightarrow> string" where
  "str_int i = (if i < 0 then CHR ''-'' # str_nat (nat (- i)) else str_nat (nat i))"

text \<open>
  \<open>int(s)\<close> on a string: surrounding white space is dropped, one sign is allowed, and
  the rest is a non-empty run of digits in which single underscores may separate
  digits. Anything else raises \<open>ValueError\<close>, here \<open>None\<close>. The conversion skips the six
  white-space characters of C only (tab, line feed, vertical tab, form feed, carriage
  return and space): unlike \<open>str.strip\<close> it does not skip the separators \<open>0x1C\<close> to
  \<open>0x1F\<close>. A string with more than \<open>int_max_str_digits\<close> digits raises \<open>ValueError\<close> as
  well (4300 is the interpreter's default).
\<close>

definition is_int_space :: "char \<Rightarrow> bool" where
  "is_int_space c \<longleftrightarrow> c \<in> set [CHR 0x09, CHR 0x0A, CHR 0x0B, CHR 0x0C, CHR 0x0D, CHR 0x20]"

definition int_strip :: "string \<Rightarrow> string" where
  "int_strip s = rev (dropWhile is_int_space (rev (dropWhile is_int_space s)))"

definition int_max_str_digits :: nat where
  "int_max_str_digits = 4300"

fun int_body :: "string \<Rightarrow> bool" where
  "int_body [] = False"
| "int_body [c] = is_digit c"
| "int_body (c # d # r) =
     (is_digit c \<and> (if d = CHR ''_'' then int_body r else int_body (d # r)))"

definition int_literal :: "string \<Rightarrow> bool" where
  "int_literal body \<longleftrightarrow> int_body body \<and> length (filter is_digit body) \<le> int_max_str_digits"

definition digit_val :: "char \<Rightarrow> int" where
  "digit_val c = (case map_of (zip ''0123456789'' [0, 1, 2, 3, 4, 5, 6, 7, 8, 9]) c of
                    Some v \<Rightarrow> v
                  | None \<Rightarrow> 0)"

definition digits_val :: "string \<Rightarrow> int" where
  "digits_val s = foldl (\<lambda>acc c. acc * 10 + digit_val c) 0 (filter is_digit s)"

definition py_int :: "string \<Rightarrow> int option" where
  "py_int s =
     (let t = int_strip s in
      case t of
        [] \<Rightarrow> None
      | c # r \<Rightarrow>
          if c = CHR ''-'' then (if int_literal r then Some (- digits_val r) else None)
          else if c = CHR ''+'' then (if int_literal r then Some (digits_val r) else None)
          else (if int_literal t then Some (digits_val t) else None))"

text \<open>
  \<open>int(raw_id)\<close> for an element of a GraphQL list of \<open>ID\<close>: the element is a string or
  null, and \<open>int(None)\<close> raises \<open>TypeError\<close>. Both exceptions are caught by the same
  handler, so both are \<open>None\<close> here. \<open>format_raw\<close> is the \<open>{raw_id}\<close> of the f-string.
\<close>

definition int_of_raw :: "string option \<Rightarrow> int option" where
  "int_of_raw raw = (case raw of None \<Rightarrow> None | Some s \<Rightarrow> py_int s)"

definition format_raw :: "string option \<Rightarrow> string" where
  "format_raw raw = (case raw of None \<Rightarrow> ''None'' | Some s \<Rightarrow> s)"

text \<open>\<open>list(dict.fromkeys(xs))\<close>: the keys of a dictionary in insertion order.\<close>

definition dict_fromkeys :: "'a list \<Rightarrow> 'a list" where
  "dict_fromkeys xs = foldl (\<lambda>keys x. if x \<in> set keys then keys else keys @ [x]) [] xs"

section \<open>Phone validation\<close>

text \<open>
  \<open>PHONE_REGEX = re.compile(r"^(?:\+\d{7,15}|\d{3}-\d{3}-\d{4})$")\<close>. The two
  alternatives are \<open>plus_digits\<close> and \<open>dashed_digits\<close>. In Python \<open>$\<close> matches at the
  end of the string and also just before a newline that ends the string, which
  \<open>phone_regex_match\<close> writes out.
\<close>

definition plus_digits :: "string \<Rightarrow> bool" where
  "plus_digits s =
     (case s of
        [] \<Rightarrow> False
      | c # ds \<Rightarrow> c = CHR ''+'' \<and> 7 \<le> length ds \<and> length ds \<le> 15 \<and> list_all is_digit ds)"

definition dashed_digits :: "string \<Rightarrow> bool" where
  "dashed_digits s =
     (length s = 12 \<and> list_all is_digit (take 3 s) \<and> s ! 3 = CHR ''-'' \<and>
      list_all is_digit (take 3 (drop 4 s)) \<and> s ! 7 = CHR ''-'' \<and>
      list_all is_digit (drop 8 s))"

definition phone_regex_match :: "string \<Rightarrow> bool" where
  "phone_regex_match s =
     (plus_digits s \<or> dashed_digits s \<or>
      (s \<noteq> [] \<and> last s = CHR 0x0A \<and> (plus_digits (butlast s) \<or> dashed_digits (butlast s))))"

text \<open>
  Exceptions: \<open>ValidationError\<close> is caught inside the mutations; the others leave the
  resolver.
\<close>

datatype validation_error = ValidationError (messages: "string list")

datatype exn =
    GraphQLError string
  | InvalidOperation
  | IntegrityError
  | OverflowError

definition validate_phone :: "string option \<Rightarrow> validation_error + string option" where
  "validate_phone phone =
     (case phone of
        None \<Rightarrow> Inr None
      | Some p \<Rightarrow>
          if p \<noteq> [] \<and> \<not> phone_regex_match p
          then Inl (ValidationError [''Phone number must be +<digits> or 123-456-7890 format.''])
          else Inr (Some p))"

section \<open>Decimal numbers\<close>

text \<open>
  A finite \<open>decimal.Decimal\<close> is a signed coefficient and an exponent, of value
  \<open>coefficient * 10 ^ exponent\<close>. Addition is exact: the default context rounds a sum
  only beyond \<open>prec\<close> = 28 significant digits, which sums of
  \<open>DecimalField(max_digits=10)\<close> prices do not reach. The special values (NaN and the
  infinities), which no decimal column holds, are not part of the model.
\<close>

datatype decimal = Decimal (coefficient: int) (exponent: int)

definition prec :: nat where
  "prec = 28"

definition dec_add :: "decimal \<Rightarrow> decimal \<Rightarrow> decimal" where
  "dec_add a b =
     (let e = min (exponent a) (exponent b)
      in Decimal (coefficient a * 10 ^ nat (exponent a - e) +
                  coefficient b * 10 ^ nat (exponent b - e)) e)"

text \<open>\<open>sum(values, Decimal('0'))\<close>\<close>

definition dec_sum :: "decimal list \<Rightarrow> decimal" where
  "dec_sum ds = foldl dec_add (Decimal 0 0) ds"

text \<open>\<open>d <= 0\<close>\<close>

definition dec_le_zero :: "decimal \<Rightarrow> bool" where
  "dec_le_zero d \<longleftrightarrow> coefficient d \<le> 0"

text \<open>
  \<open>ROUND_HALF_UP\<close> of \<open>c / m\<close> for a positive \<open>m\<close>: to the nearest integer, a tie away
  from zero.
\<close>

definition round_half_up :: "int \<Rightarrow> int \<Rightarrow> int" where
  "round_half_up c m = sgn c * ((2 * \<bar>c\<bar> + m) div (2 * m))"

text \<open>
  \<open>d.quantize(q, rounding=ROUND_HALF_UP)\<close>: \<open>d\<close> rescaled to the exponent of \<open>q\<close>. It
  raises \<open>InvalidOperation\<close> when the coefficient of the result has more than \<open>prec\<close>
  digits.
\<close>

definition quantize :: "decimal \<Rightarrow> decimal \<Rightarrow> exn + decimal" where
  "quantize d q =
     (let e = exponent q;
          c = (if e \<le> exponent d then coefficient d * 10 ^ nat (exponent d - e)
               else round_half_up (coefficient d) (10 ^ nat (e - exponent d)))
      in if 10 ^ prec \<le> \<bar>c\<bar> then Inl InvalidOperation else Inr (Decimal c e))"

text \<open>\<open>Decimal('0.01')\<close>\<close>

definition cent :: decimal where
  "cent = Decimal 1 (- 2)"

text \<open>
  A decimal column. \<open>DecimalField(max_digits, decimal_places=2)\<close> reads a stored number
  through \<open>quantize\<close> to two decimals in a context of precision \<open>max_digits\<close> (rounding
  half-even), which raises \<open>InvalidOperation\<close> when the number needs more than
  \<open>max_digits\<close> digits. A table holds the number stored; the mutations store numbers of
  two decimals, which a successful read returns as they are.
\<close>

definition round_half_even :: "int \<Rightarrow> int \<Rightarrow> int" where
  "round_half_even c m =
     sgn c * (let q = \<bar>c\<bar> div m; r = \<bar>c\<bar> mod m
              in if m < 2 * r \<or> (2 * r = m \<and> odd q) then q + 1 else q)"

definition fits_column :: "nat \<Rightarrow> decimal \<Rightarrow> bool" where
  "fits_column max_digits d \<longleftrightarrow>
     \<bar>if - 2 \<le> exponent d then coefficient d * 10 ^ nat (exponent d + 2)
      else round_half_even (coefficient d) (10 ^ nat (- 2 - exponent d))\<bar> < 10 ^ max_digits"

text \<open>The number a decimal denotes.\<close>

definition dec_val :: "decimal \<Rightarrow> rat" where
  "dec_val d =
     (if 0 \<le> exponent d then of_int (coefficient d) * 10 ^ nat (exponent d)
      else of_int (coefficient d) / 10 ^ nat (- exponent d))"

section \<open>The data model of \<open>crm/models.py\<close>\<close>

text \<open>
  A model instance is the record of its fields; a saved row is the pair of its primary
  key and the instance, and a table is the list of its rows in insertion order. The
  audit timestamps of \<open>TimeStampedModel\<close> take no part in the mutations' logic and are
  left out. An order refers to its customer by primary key, and the many-to-many
  relation between orders and products is its table of (order key, product key) pairs.
  The database is SQLite, the default of the framework: text columns take strings of
  any length, integer parameters of a query have 64 bits (\<open>sqlite_integer\<close>), and a
  decimal column gives back a number only if it fits (\<open>fits_column\<close>).
\<close>

type_synonym datetime = int

record customer =
  name :: string
  email :: string
  phone :: string

record product =
  name :: string
  price :: decimal
  stock :: int

record order =
  customer :: int
  total_amount :: decimal
  order_date :: datetime

record database =
  customers :: "(int \<times> customer) list"
  products :: "(int \<times> product) list"
  orders :: "(int \<times> order) list"
  order_products :: "(int \<times> int) list"

text \<open>
  An integer the database binding can pass to a query: SQLite integers have 64 bits,
  and a larger parameter raises \<open>OverflowError\<close> when the query is run.
\<close>

definition sqlite_integer :: "int \<Rightarrow> bool" where
  "sqlite_integer n \<longleftrightarrow> - (2 ^ 63) \<le> n \<and> n < 2 ^ 63"

text \<open>The key the database gives the next inserted row of a table.\<close>

definition next_pk :: "(int \<times> 'a) list \<Rightarrow> int" where
  "next_pk table = foldl max 0 (map fst table) + 1"

text \<open>
  The \<open>iexact\<close> lookup of the ORM: equality up to letter case.
\<close>

definition iexact :: "string \<Rightarrow> string \<Rightarrow> bool" where
  "iexact a b \<longleftrightarrow> py_lower a = py_lower b"

section \<open>Mutation inputs and payloads\<close>

record customer_input =
  name :: string
  email :: string
  phone :: "string option"

record product_input =
  name :: string
  price :: decimal
  stock :: "int option"

record order_input =
  customer_id :: string
  product_ids :: "string option list"
  order_date :: "datetime option"

datatype create_customer =
  CreateCustomer "(int \<times> customer) option" "string option" "string list"

datatype bulk_create_customers =
  BulkCreateCustomers "(int \<times> customer) list" "string list"

datatype create_product =
  CreateProduct "(int \<times> product) option" "string list"

datatype create_order =
  CreateOrder "(int \<times> order) option" "string list"

section \<open>\<open>CreateCustomer.mutate\<close>\<close>

definition create_customer_mutate ::
  "database \<Rightarrow> customer_input \<Rightarrow> create_customer \<times> database" where
  "create_customer_mutate db input =
     (let errors0 = [];
          name = py_strip (customer_input.name input);
          errors1 = (if name = [] then errors0 @ [''Name is required.''] else errors0);
          errors2 = (case validate_phone (customer_input.phone input) of
                       Inl exc \<Rightarrow> errors1 @ messages exc
                     | Inr _ \<Rightarrow> errors1);
          email = py_lower (py_strip (customer_input.email input));
          errors3 = (if list_ex (\<lambda>row. iexact (customer.email (snd row)) email) (customers db)
                     then errors2 @ [''Email already exists.''] else errors2)
      in if errors3 \<noteq> [] then (CreateCustomer None None errors3, db)
         else
           let instance = \<lparr>customer.name = name, email = email,
                            phone = py_strip (case customer_input.phone input of
                                                None \<Rightarrow> [] | Some p \<Rightarrow> p)\<rparr>;
               saved = (next_pk (customers db), instance)
           in (CreateCustomer (Some saved) (Some ''Customer created successfully.'') [],
               db\<lparr>customers := customers db @ [saved]\<rparr>))"

section \<open>\<open>BulkCreateCustomers.mutate\<close>\<close>

text \<open>The state of the loop over the batch.\<close>

record bulk_state =
  pending :: "customer list"
  errors :: "string list"
  seen_emails :: "string set"

text \<open>\<open>pending = []\<close>, \<open>errors = []\<close>, \<open>seen_emails = set()\<close>\<close>

definition bulk_init :: bulk_state where
  "bulk_init = \<lparr>pending = [], errors = [], seen_emails = {}\<rparr>"

text \<open>
  \<open>existing_emails\<close>: the lower-cased non-empty emails of the stored customers.
\<close>

definition existing_emails :: "database \<Rightarrow> string set" where
  "existing_emails db =
     set (map py_lower (filter (\<lambda>e. e \<noteq> []) (map (\<lambda>row. customer.email (snd row)) (customers db))))"

definition row_email :: "customer_input \<Rightarrow> string" where
  "row_email payload = py_lower (py_strip (customer_input.email payload))"

definition row_name :: "customer_input \<Rightarrow> string" where
  "row_name payload = py_strip (customer_input.name payload)"

definition row_phone :: "customer_input \<Rightarrow> string" where
  "row_phone payload =
     (case customer_input.phone payload of
        None \<Rightarrow> []
      | Some p \<Rightarrow> if p = [] then [] else py_strip p)"

text \<open>\<open>Customer(name=name, email=email, phone=phone)\<close>\<close>

definition row_customer :: "customer_input \<Rightarrow> customer" where
  "row_customer payload =
     \<lparr>customer.name = row_name payload, email = row_email payload, phone = row_phone payload\<rparr>"

text \<open>\<open>row_errors\<close> of one iteration, given the emails seen so far.\<close>

definition row_errors :: "string set \<Rightarrow> string set \<Rightarrow> customer_input \<Rightarrow> string list" where
  "row_errors existing seen payload =
     (let email = row_email payload;
          name = row_name payload;
          phone = row_phone payload;
          errs1 = (if name = [] then [''Name is required.''] else []);
          errs2 = (if email = [] then errs1 @ [''Email is required.'']
                   else if email \<in> existing then errs1 @ [''Email already exists.'']
                   else if email \<in> seen then errs1 @ [''Duplicate email within request.'']
                   else errs1)
      in case validate_phone (Some phone) of
           Inl exc \<Rightarrow> errs2 @ messages exc
         | Inr _ \<Rightarrow> errs2)"

text \<open>\<open>f"Entry {index + 1}: {'; '.join(row_errors)}"\<close>\<close>

definition entry_message :: "nat \<Rightarrow> string list \<Rightarrow> string" where
  "entry_message index errs =
     ''Entry '' @ str_int (int index + 1) @ '': '' @ py_join ''; '' errs"

definition bulk_step :: "string set \<Rightarrow> nat \<Rightarrow> customer_input \<Rightarrow> bulk_state \<Rightarrow> bulk_state" where
  "bulk_step existing index payload st =
     (let errs = row_errors existing (seen_emails st) payload
      in if errs \<noteq> [] then st\<lparr>errors := errors st @ [entry_message index errs]\<rparr>
         else st\<lparr>seen_emails := insert (row_email payload) (seen_emails st),
                 pending := pending st @ [row_customer payload]\<rparr>)"

text \<open>\<open>for index, payload in enumerate(input)\<close>, from a given index and state.\<close>

fun bulk_loop :: "string set \<Rightarrow> nat \<Rightarrow> customer_input list \<Rightarrow> bulk_state \<Rightarrow> bulk_state" where
  "bulk_loop existing index [] st = st"
| "bulk_loop existing index (payload # rest) st =
     bulk_loop existing (Suc index) rest (bulk_step existing index payload st)"

text \<open>\<open>Customer.objects.bulk_create(pending)\<close>: the rows get consecutive keys.\<close>

definition bulk_create :: "(int \<times> customer) list \<Rightarrow> customer list \<Rightarrow> (int \<times> customer) list" where
  "bulk_create table instances =
     zip (map (\<lambda>k. next_pk table + int k) [0..<length instances]) instances"

definition bulk_create_customers_mutate ::
  "database \<Rightarrow> customer_input list \<Rightarrow> exn + bulk_create_customers \<times> database" where
  "bulk_create_customers_mutate db input =
     (if input = [] then Inl (GraphQLError ''Input list cannot be empty.'')
      else
        let st = bulk_loop (existing_emails db) 0 input bulk_init;
            created = (if pending st \<noteq> [] then bulk_create (customers db) (pending st) else [])
        in Inr (BulkCreateCustomers created (errors st),
                db\<lparr>customers := customers db @ created\<rparr>))"

section \<open>\<open>CreateProduct.mutate\<close>\<close>

definition create_product_mutate ::
  "database \<Rightarrow> product_input \<Rightarrow> exn + create_product \<times> database" where
  "create_product_mutate db input =
     (let errors0 = [];
          price = product_input.price input;
          stock = (case product_input.stock input of Some s \<Rightarrow> s | None \<Rightarrow> 0);
          errors1 = (if dec_le_zero price then errors0 @ [''Price must be positive.''] else errors0);
          errors2 = (if stock < 0 then errors1 @ [''Stock cannot be negative.''] else errors1)
      in if errors2 \<noteq> [] then Inr (CreateProduct None errors2, db)
         else
           case quantize price cent of
             Inl exc \<Rightarrow> Inl exc
           | Inr rounded \<Rightarrow>
               let saved = (next_pk (products db),
                            \<lparr>product.name = py_strip (product_input.name input),
                             price = rounded, stock = stock\<rparr>)
               in Inr (CreateProduct (Some saved) [], db\<lparr>products := products db @ [saved]\<rparr>))"

section \<open>\<open>CreateOrder.mutate\<close>\<close>

text \<open>
  The loop \<open>for raw_id in input.product_ids or []\<close>, on the pair of \<open>product_ids\<close> and
  \<open>errors\<close>.
\<close>

fun parse_product_ids ::
  "string option list \<Rightarrow> int list \<times> string list \<Rightarrow> int list \<times> string list" where
  "parse_product_ids [] acc = acc"
| "parse_product_ids (raw_id # rest) (ids, errs) =
     (case int_of_raw raw_id of
        Some n \<Rightarrow> parse_product_ids rest (ids @ [n], errs)
      | None \<Rightarrow> parse_product_ids rest (ids, errs @ [''Invalid product ID: '' @ format_raw raw_id]))"

text \<open>
  \<open>Customer.objects.get(pk=customer_id)\<close>; \<open>None\<close> is \<open>Customer.DoesNotExist\<close>. The
  lookup is an exact match on the key: for a key that no row can have, the ORM finds no
  row, where the \<open>in\<close> lookup of the product query below hands its values to the
  database as they are.
\<close>

definition get_customer :: "database \<Rightarrow> int \<Rightarrow> (int \<times> customer) option" where
  "get_customer db k = find (\<lambda>row. fst row = k) (customers db)"

text \<open>
  \<open>list(Product.objects.filter(id__in=product_ids))\<close>. The rows the query matches come
  in the model's default ordering by name. Running the query raises \<open>OverflowError\<close>
  when one of the ids is not a 64-bit integer, and reading a matched row raises
  \<open>InvalidOperation\<close> when its price does not fit the column of ten digits; the
  mutation catches neither.
\<close>

definition matching_products :: "database \<Rightarrow> int list \<Rightarrow> (int \<times> product) list" where
  "matching_products db ids =
     sort_key (\<lambda>row. product.name (snd row)) (filter (\<lambda>row. fst row \<in> set ids) (products db))"

definition filter_products :: "database \<Rightarrow> int list \<Rightarrow> exn + (int \<times> product) list" where
  "filter_products db ids =
     (if \<not> list_all sqlite_integer ids then Inl OverflowError
      else if \<not> list_all (\<lambda>row. fits_column 10 (product.price (snd row))) (matching_products db ids)
      then Inl InvalidOperation
      else Inr (matching_products db ids))"

text \<open>\<open>sorted(set(product_ids) - {product.id for product in products})\<close>\<close>

definition missing_product_ids :: "int list \<Rightarrow> (int \<times> product) list \<Rightarrow> int list" where
  "missing_product_ids ids rows = sorted_list_of_set (set ids - set (map fst rows))"

text \<open>
  The validation part of the mutation, up to \<open>if errors:\<close>: the parsed and
  de-duplicated product ids, the customer and the products found, and the errors; or
  the exception that the product query has raised.
\<close>

definition order_checks ::
  "database \<Rightarrow> order_input \<Rightarrow>
     exn + int list \<times> (int \<times> customer) option \<times> (int \<times> product) list \<times> string list" where
  "order_checks db input =
     (let errors0 = [];
          (customer_id, errors1) =
            (case py_int (order_input.customer_id input) of
               Some n \<Rightarrow> (Some n, errors0)
             | None \<Rightarrow> (None, errors0 @ [''Invalid customer ID.'']));
          (parsed, errors2) = parse_product_ids (order_input.product_ids input) ([], errors1);
          product_ids = dict_fromkeys parsed;
          errors3 = (if product_ids = []
                     then errors2 @ [''At least one product must be provided.''] else errors2);
          (customer, errors4) =
            (case customer_id of
               None \<Rightarrow> (None, errors3)
             | Some k \<Rightarrow>
                 (case get_customer db k of
                    Some row \<Rightarrow> (Some row, errors3)
                  | None \<Rightarrow> (None, errors3 @ [''Customer not found.''])))
      in case (if product_ids \<noteq> [] then filter_products db product_ids else Inr []) of
           Inl exc \<Rightarrow> Inl exc
         | Inr rows \<Rightarrow>
             let missing = missing_product_ids product_ids rows;
                 errors5 = (if missing \<noteq> []
                            then errors4 @
                              [''Invalid product ID(s): '' @ py_join '', '' (map str_int missing)]
                            else errors4)
             in Inr (product_ids, customer, rows, errors5))"

text \<open>
  The mutation. \<open>now\<close> is the clock read by the default of \<open>order_date\<close>. An order
  without a customer cannot be inserted; that branch is never reached, since a missing
  customer has left an error. Inside the transaction \<open>order.refresh_from_db()\<close> reads
  the new row back: a total that does not fit the column of twelve digits raises
  \<open>InvalidOperation\<close>, and the transaction leaves nothing behind.
\<close>

definition create_order_mutate ::
  "datetime \<Rightarrow> database \<Rightarrow> order_input \<Rightarrow> exn + create_order \<times> database" where
  "create_order_mutate now db input =
     (case order_checks db input of
        Inl exc \<Rightarrow> Inl exc
      | Inr (ids, found, rows, errs) \<Rightarrow>
          if errs \<noteq> [] then Inr (CreateOrder None errs, db)
          else
            let total = dec_sum (map (\<lambda>row. product.price (snd row)) rows)
            in (case quantize total cent of
                  Inl exc \<Rightarrow> Inl exc
                | Inr rounded \<Rightarrow>
                    (case found of
                       None \<Rightarrow> Inl IntegrityError
                     | Some crow \<Rightarrow>
                         if \<not> fits_column 12 rounded then Inl InvalidOperation
                         else
                           let saved = (next_pk (orders db),
                                        \<lparr>order.customer = fst crow, total_amount = rounded,
                                         order_date = (case order_input.order_date input of
                                                         Some d \<Rightarrow> d | None \<Rightarrow> now)\<rparr>)
                           in Inr (CreateOrder (Some saved) [],
                                   db\<lparr>orders := orders db @ [saved],
                                      order_products := order_products db @
                                        map (\<lambda>row. (fst saved, fst row)) rows\<rparr>))))"

section \<open>Filtered queries\<close>

text \<open>
  The filter-set classes of \<open>crm/filters.py\<close> are parameters of \<open>_filter_queryset\<close>: a
  filter-set is given by the field errors of its form for a payload, and by the query
  set it yields for a payload. A payload is a dictionary from lookup names to values; a
  filter input is the dictionary of the fields the client sent, a field sent as null
  holding \<open>None\<close>; a filter mapping is the list of the items of its dictionary.
\<close>

record ('v, 'q) filterset =
  fs_errors :: "(string \<rightharpoonup> 'v) \<Rightarrow> (string \<times> string list) list"
  fs_qs :: "(string \<rightharpoonup> 'v) \<Rightarrow> 'q \<Rightarrow> 'q"

text \<open>\<open>getattr(filter_input, attr, None)\<close>\<close>

definition getattr :: "(string \<times> 'v option) list \<Rightarrow> string \<Rightarrow> 'v option" where
  "getattr filter_input attr = (case map_of filter_input attr of Some v \<Rightarrow> v | None \<Rightarrow> None)"

definition build_payload ::
  "(string \<times> 'v option) list \<Rightarrow> (string \<times> string) list \<Rightarrow> (string \<rightharpoonup> 'v)" where
  "build_payload filter_input filter_mapping =
     foldl (\<lambda>payload (attr, lookup).
              case getattr filter_input attr of
                None \<Rightarrow> payload
              | Some v \<Rightarrow> payload(lookup \<mapsto> v))
       Map.empty filter_mapping"

definition error_messages :: "(string \<times> string list) list \<Rightarrow> string list" where
  "error_messages errs = concat (map (\<lambda>(field, es). map (\<lambda>e. field @ '': '' @ e) es) errs)"

definition filter_queryset ::
  "'q \<Rightarrow> (string \<times> 'v option) list option \<Rightarrow> (string \<times> string) list \<Rightarrow>
     ('v, 'q) filterset \<Rightarrow> exn + 'q" where
  "filter_queryset queryset filter_input filter_mapping filterset_cls =
     (case filter_input of
        None \<Rightarrow> Inr (fs_qs filterset_cls Map.empty queryset)
      | Some given \<Rightarrow>
          if given = [] then Inr (fs_qs filterset_cls Map.empty queryset)
          else
            let payload = build_payload given filter_mapping
            in if fs_errors filterset_cls payload = []
               then Inr (fs_qs filterset_cls payload queryset)
               else
                 let joined = py_join ''; '' (error_messages (fs_errors filterset_cls payload))
                 in Inl (GraphQLError (if joined = [] then ''Invalid filter arguments.''
                                       else joined)))"

text \<open>\<open>_apply_ordering\<close>, over the \<open>order_by\<close> method of the query set.\<close>

definition apply_ordering :: "(string list \<Rightarrow> 'q \<Rightarrow> 'q) \<Rightarrow> 'q \<Rightarrow> string list option \<Rightarrow> 'q" where
  "apply_ordering qs_order_by queryset order_by =
     (case order_by of
        None \<Rightarrow> queryset
      | Some keys \<Rightarrow> if keys = [] then queryset else qs_order_by keys queryset)"

text \<open>The mappings of the three list resolvers.\<close>

definition customer_mapping :: "(string \<times> string) list" where
  "customer_mapping =
     [(''name_icontains'', ''name_icontains''), (''email_icontains'', ''email_icontains''),
      (''created_at_gte'', ''created_at_gte''), (''created_at_lte'', ''created_at_lte''),
      (''phone_pattern'', ''phone_pattern'')]"

definition product_mapping :: "(string \<times> string) list" where
  "product_mapping =
     [(''name_icontains'', ''name_icontains''), (''price_gte'', ''price_gte''),
      (''price_lte'', ''price_lte''), (''stock_gte'', ''stock_gte''),
      (''stock_lte'', ''stock_lte'')]"

definition order_mapping :: "(string \<times> string) list" where
  "order_mapping =
     [(''total_amount_gte'', ''total_amount_gte''), (''total_amount_lte'', ''total_amount_lte''),
      (''order_date_gte'', ''order_date_gte''), (''order_date_lte'', ''order_date_lte''),
      (''customer_name'', ''customer_name''), (''product_name'', ''product_name''),
      (''product_id'', ''product_id'')]"

definition resolve_list ::
  "(string \<times> string) list \<Rightarrow> ('v, 'q) filterset \<Rightarrow> (string list \<Rightarrow> 'q \<Rightarrow> 'q) \<Rightarrow> 'q \<Rightarrow>
     (string \<times> 'v option) list option \<Rightarrow> string list option \<Rightarrow> exn + 'q" where
  "resolve_list mapping filterset_cls qs_order_by queryset filter_input order_by =
     (case filter_queryset queryset filter_input mapping filterset_cls of
        Inl exc \<Rightarrow> Inl exc
      | Inr filtered \<Rightarrow> Inr (apply_ordering qs_order_by filtered order_by))"

text \<open>
  \<open>resolve_all_customers\<close>, \<open>resolve_all_products\<close> and \<open>resolve_all_orders\<close>: the same
  resolver, each with its mapping and its filter-set class.
\<close>

definition resolve_all_customers ::
  "('v, 'q) filterset \<Rightarrow> (string list \<Rightarrow> 'q \<Rightarrow> 'q) \<Rightarrow> 'q \<Rightarrow>
     (string \<times> 'v option) list option \<Rightarrow> string list option \<Rightarrow> exn + 'q" where
  "resolve_all_customers customer_filter = resolve_list customer_mapping customer_filter"

definition resolve_all_products ::
  "('v, 'q) filterset \<Rightarrow> (string list \<Rightarrow> 'q \<Rightarrow> 'q) \<Rightarrow> 'q \<Rightarrow>
     (string \<times> 'v option) list option \<Rightarrow> string list option \<Rightarrow> exn + 'q" where
  "resolve_all_products product_filter = resolve_list product_mapping product_filter"

definition resolve_all_orders ::
  "('v, 'q) filterset \<Rightarrow> (string list \<Rightarrow> 'q \<Rightarrow> 'q) \<Rightarrow> 'q \<Rightarrow>
     (string \<times> 'v option) list option \<Rightarrow> string list option \<Rightarrow> exn + 'q" where
  "resolve_all_orders order_filter = resolve_list order_mapping order_filter"

section \<open>Notions used to state the properties\<close>

text \<open>
  The errors \<open>CreateOrder.mutate\<close> has accumulated when it reaches \<open>if errors:\<close> (none if
  the product query has raised before).
\<close>

definition order_errors :: "database \<Rightarrow> order_input \<Rightarrow> string list" where
  "order_errors db input =
     (case order_checks db input of
        Inl exc \<Rightarrow> []
      | Inr (ids, found, rows, errs) \<Rightarrow> errs)"

text \<open>The product ids of an input that parse as integers, in the order given.\<close>

definition parsed_ids :: "order_input \<Rightarrow> int list" where
  "parsed_ids input = List.map_filter int_of_raw (order_input.product_ids input)"

text \<open>
  What the product query of \<open>CreateOrder.mutate\<close> needs in order not to raise: the ids
  that parse are 64-bit integers, and the prices of the products they name fit the
  price column.
\<close>

definition product_query_ok :: "database \<Rightarrow> order_input \<Rightarrow> bool" where
  "product_query_ok db input \<longleftrightarrow>
     list_all sqlite_integer (parsed_ids input) \<and>
     list_all (\<lambda>row. fits_column 10 (product.price (snd row)))
       (filter (\<lambda>row. fst row \<in> set (parsed_ids input)) (products db))"

text \<open>
  The phone formats the specification names: a plus sign and 7 to 15 digits, or
  three digits, three digits and four digits separated by dashes.
\<close>

definition phone_format :: "string \<Rightarrow> bool" where
  "phone_format s \<longleftrightarrow> plus_digits s \<or> dashed_digits s"

text \<open>
  De-duplication that keeps the first occurrence of every element, as the
  specification words it.
\<close>

function first_seen :: "'a list \<Rightarrow> 'a list" where
  "first_seen [] = []"
| "first_seen (x # xs) = x # first_seen (removeAll x xs)"
  by pat_completeness auto
termination
  by (relation "measure length") (auto simp: less_Suc_eq_le)

text \<open>Rounding a number half-up (a tie away from zero) to two decimals.\<close>

definition round_half_up_2dp :: "rat \<Rightarrow> rat" where
  "round_half_up_2dp x = sgn x * of_int \<lfloor>\<bar>x\<bar> * 100 + 1 / 2\<rfloor> / 100"

text \<open>
  What the loop of \<open>BulkCreateCustomers.mutate\<close> maintains: the emails seen are those of
  the pending instances, none of them is empty, and no two pending instances share an
  email.
\<close>

definition bulk_inv :: "bulk_state \<Rightarrow> bool" where
  "bulk_inv st \<longleftrightarrow>
     seen_emails st = customer.email ` set (pending st) \<and>
     [] \<notin> seen_emails st \<and>
     distinct (map customer.email (pending st))"

text \<open>Every stored email is free of surrounding white space.\<close>

definition emails_trimmed :: "database \<Rightarrow> bool" where
  "emails_trimmed db \<longleftrightarrow>
     list_all (\<lambda>row. py_strip (customer.email (snd row)) = customer.email (snd row)) (customers db)"

text \<open>Sample data.\<close>

definition empty_db :: database where
  "empty_db = \<lparr>customers = [], products = [], orders = [], order_products = []\<rparr>"

definition shop_db :: database where
  "shop_db =
     \<lparr>customers = [(1, \<lparr>customer.name = ''Alice'', email = ''alice@example.com'',
                        phone = ''+1234567890''\<rparr>)],
      products = [(2, \<lparr>product.name = ''Laptop'', price = Decimal 99999 (- 2), stock = 10\<rparr>),
                  (3, \<lparr>product.name = ''Headphones'', price = Decimal 19950 (- 2), stock = 50\<rparr>)],
      orders = [], order_products = []\<rparr>"


text \<open>
  A sample filter-set over query sets of names: it rejects a price bound that is not a
  number and filters nothing.
\<close>

definition sample_filterset :: "(string, string list) filterset" where
  "sample_filterset =
     \<lparr>fs_errors = (\<lambda>payload.
        concat (map (\<lambda>field. case payload field of
                               None \<Rightarrow> []
                             | Some v \<Rightarrow> if py_int v = None then [(field, [''Enter a number.''])] else [])
                  [''price_gte'', ''price_lte''])),
      fs_qs = (\<lambda>payload queryset. queryset)\<rparr>"

section \<open>Order creation: validation\<close>

lemma parse_product_ids_eq:
  "parse_product_ids raws (ids, errs) =
     (ids @ List.map_filter int_of_raw raws,
      errs @ map (\<lambda>r. ''Invalid product ID: '' @ format_raw r)
               (filter (\<lambda>r. int_of_raw r = None) raws))"
  by (induction raws arbitrary: ids errs) (auto split: option.splits)

lemma fromkeys_foldl_set:
  "set (foldl (\<lambda>keys x. if x \<in> set keys then keys else keys @ [x]) acc xs) = set acc \<union> set xs"
  by (induction xs arbitrary: acc) auto

lemma fromkeys_foldl_distinct:
  "distinct acc \<Longrightarrow>
     distinct (foldl (\<lambda>keys x. if x \<in> set keys then keys else keys @ [x]) acc xs)"
  by (induction xs arbitrary: acc) auto

lemma set_dict_fromkeys: "set (dict_fromkeys xs) = set xs"
  by (simp add: dict_fromkeys_def fromkeys_foldl_set)

lemma distinct_dict_fromkeys: "distinct (dict_fromkeys xs)"
  by (simp add: dict_fromkeys_def fromkeys_foldl_distinct)

lemma dict_fromkeys_Nil_iff: "dict_fromkeys xs = [] \<longleftrightarrow> xs = []"
  using set_dict_fromkeys [of xs] by (metis set_empty)

lemma set_matching_products:
  "set (matching_products db ids) = {row \<in> set (products db). fst row \<in> set ids}"
  by (auto simp: matching_products_def)

lemma matching_products_dict_fromkeys:
  "matching_products db (dict_fromkeys xs) = matching_products db xs"
  by (simp add: matching_products_def set_dict_fromkeys)

lemma missing_matching_products:
  "missing_product_ids ids (matching_products db ids) = missing_product_ids ids (products db)"
proof -
  have "set ids - fst ` set (matching_products db ids) = set ids - fst ` set (products db)"
    by (auto simp: set_matching_products)
  then show ?thesis by (simp add: missing_product_ids_def)
qed

lemma missing_Nil: "missing_product_ids [] rows = []"
  by (simp add: missing_product_ids_def)

lemma missing_dict_fromkeys:
  "missing_product_ids (dict_fromkeys xs) rows = missing_product_ids xs rows"
  by (simp add: missing_product_ids_def set_dict_fromkeys)


text \<open>The product query, as the mutation runs it on the ids it has kept.\<close>

lemma filter_products_cases:
  "filter_products db ids = Inl OverflowError \<and> \<not> list_all sqlite_integer ids \<or>
   filter_products db ids = Inl InvalidOperation \<and> list_all sqlite_integer ids \<and>
     \<not> list_all (\<lambda>row. fits_column 10 (product.price (snd row))) (matching_products db ids) \<or>
   filter_products db ids = Inr (matching_products db ids) \<and> list_all sqlite_integer ids \<and>
     list_all (\<lambda>row. fits_column 10 (product.price (snd row))) (matching_products db ids)"
  by (simp add: filter_products_def)

lemma product_query_ok_iff:
  "product_query_ok db input \<longleftrightarrow>
     list_all sqlite_integer (dict_fromkeys (parsed_ids input)) \<and>
     list_all (\<lambda>row. fits_column 10 (product.price (snd row)))
       (matching_products db (dict_fromkeys (parsed_ids input)))"
  by (auto simp: product_query_ok_def list_all_iff set_dict_fromkeys set_matching_products)

lemma filter_products_ok:
  "product_query_ok db input \<Longrightarrow>
     filter_products db (dict_fromkeys (parsed_ids input))
       = Inr (matching_products db (parsed_ids input))"
  by (simp add: product_query_ok_iff filter_products_def matching_products_dict_fromkeys)

text \<open>
  The checks, whatever the product query does: its exception if it raises, and
  otherwise the ids kept, the customer found, the rows and the errors.
\<close>

lemma order_checks_eq:
  "order_checks db input =
     (case (if parsed_ids input \<noteq> [] then filter_products db (dict_fromkeys (parsed_ids input))
            else Inr []) of
        Inl exc \<Rightarrow> Inl exc
      | Inr rows \<Rightarrow>
          Inr (dict_fromkeys (parsed_ids input),
               (case py_int (order_input.customer_id input) of
                  None \<Rightarrow> None | Some k \<Rightarrow> get_customer db k),
               rows,
               (if py_int (order_input.customer_id input) = None
                then [''Invalid customer ID.''] else []) @
               map (\<lambda>r. ''Invalid product ID: '' @ format_raw r)
                 (filter (\<lambda>r. int_of_raw r = None) (order_input.product_ids input)) @
               (if parsed_ids input = []
                then [''At least one product must be provided.''] else []) @
               (case py_int (order_input.customer_id input) of
                  None \<Rightarrow> []
                | Some k \<Rightarrow> if get_customer db k = None then [''Customer not found.''] else []) @
               (if missing_product_ids (parsed_ids input) rows = [] then []
                else [''Invalid product ID(s): '' @
                      py_join '', '' (map str_int (missing_product_ids (parsed_ids input) rows))])))"
  by (auto simp: order_checks_def parse_product_ids_eq parsed_ids_def Let_def
      dict_fromkeys_Nil_iff missing_dict_fromkeys split: option.splits prod.splits sum.splits)

lemma order_checks_ok:
  assumes "product_query_ok db input"
  shows "order_checks db input =
     Inr (dict_fromkeys (parsed_ids input),
          (case py_int (order_input.customer_id input) of
             None \<Rightarrow> None | Some k \<Rightarrow> get_customer db k),
          (if parsed_ids input \<noteq> [] then matching_products db (parsed_ids input) else []),
          order_errors db input)"
  using assms by (simp add: order_errors_def order_checks_eq filter_products_ok)

text \<open>
  When the product query does not raise, the error list is the concatenation of what
  the five checks report, each computed whatever the others found.
\<close>

lemma order_errors_eq:
  assumes "product_query_ok db input"
  shows "order_errors db input =
     (if py_int (order_input.customer_id input) = None then [''Invalid customer ID.''] else []) @
     map (\<lambda>r. ''Invalid product ID: '' @ format_raw r)
       (filter (\<lambda>r. int_of_raw r = None) (order_input.product_ids input)) @
     (if parsed_ids input = [] then [''At least one product must be provided.''] else []) @
     (case py_int (order_input.customer_id input) of
        None \<Rightarrow> []
      | Some k \<Rightarrow> if get_customer db k = None then [''Customer not found.''] else []) @
     (if missing_product_ids (parsed_ids input) (products db) = [] then []
      else [''Invalid product ID(s): '' @
            py_join '', '' (map str_int (missing_product_ids (parsed_ids input) (products db)))])"
  using assms
  by (simp add: order_errors_def order_checks_eq filter_products_ok missing_matching_products
      missing_Nil)

lemma create_order_rejects:
  "order_errors db input \<noteq> [] \<Longrightarrow>
     create_order_mutate now db input = Inr (CreateOrder None (order_errors db input), db)"
  by (auto simp: order_errors_def create_order_mutate_def split: prod.splits sum.splits)

lemma product_query_ok_no_ids: "parsed_ids input = [] \<Longrightarrow> product_query_ok db input"
  by (simp add: product_query_ok_def)




text \<open>
  C10. When the list of product ids is not empty and none of its elements parses as
  an integer, the errors hold one \<open>Invalid product ID: <id>\<close> entry for every element,
  in order, followed by \<open>At least one product must be provided.\<close>; only the two
  customer errors can stand around them. No order is created.
\<close>

theorem create_order_all_ids_unparseable:
  assumes "order_input.product_ids input \<noteq> []"
    and "\<forall>r \<in> set (order_input.product_ids input). int_of_raw r = None"
  shows "create_order_mutate now db input =
     Inr (CreateOrder None
           ((if py_int (order_input.customer_id input) = None then [''Invalid customer ID.''] else []) @
            map (\<lambda>r. ''Invalid product ID: '' @ format_raw r) (order_input.product_ids input) @
            [''At least one product must be provided.''] @
            (case py_int (order_input.customer_id input) of
               None \<Rightarrow> []
             | Some k \<Rightarrow> if get_customer db k = None then [''Customer not found.''] else [])),
          db)"
proof -
  from assms(2) have all: "filter (\<lambda>r. int_of_raw r = None) (order_input.product_ids input)
      = order_input.product_ids input"
    by (simp add: filter_id_conv)
  from assms(2) have none: "parsed_ids input = []"
    by (simp add: parsed_ids_def List.map_filter_def filter_empty_conv)
  then have query: "product_query_ok db input"
    by (rule product_query_ok_no_ids)
  have errs: "order_errors db input =
     (if py_int (order_input.customer_id input) = None then [''Invalid customer ID.''] else []) @
     map (\<lambda>r. ''Invalid product ID: '' @ format_raw r) (order_input.product_ids input) @
     [''At least one product must be provided.''] @
     (case py_int (order_input.customer_id input) of
        None \<Rightarrow> []
      | Some k \<Rightarrow> if get_customer db k = None then [''Customer not found.''] else [])"
    by (simp add: order_errors_eq [OF query] all none missing_Nil)
  then have "order_errors db input \<noteq> []"
    by simp
  then have "create_order_mutate now db input = Inr (CreateOrder None (order_errors db input), db)"
    by (rule create_order_rejects)
  with errs show ?thesis
    by simp
qed

theorem create_order_all_ids_unparseable_witness:
  "[Some ''abc'', None, Some [CHR 0x1C, CHR ''5'']] \<noteq> [] \<and>
   list_all (\<lambda>r. int_of_raw r = None) [Some ''abc'', None, Some [CHR 0x1C, CHR ''5'']] \<and>
   create_order_mutate 0 shop_db
       \<lparr>customer_id = ''1'', product_ids = [Some ''abc'', None, Some [CHR 0x1C, CHR ''5'']],
        order_date = None\<rparr>
     = Inr (CreateOrder None
             [''Invalid product ID: abc'', ''Invalid product ID: None'',
              ''Invalid product ID: '' @ [CHR 0x1C, CHR ''5''],
              ''At least one product must be provided.''],
            shop_db)"
proof -
  let ?input = "\<lparr>customer_id = ''1'', product_ids = [Some ''abc'', None, Some [CHR 0x1C, CHR ''5'']],
                  order_date = None\<rparr>"
  have h1: "order_input.product_ids ?input \<noteq> []"
    by simp
  have h2: "list_all (\<lambda>r. int_of_raw r = None) [Some ''abc'', None, Some [CHR 0x1C, CHR ''5'']]"
    by code_simp
  then have h2': "\<forall>r \<in> set (order_input.product_ids ?input). int_of_raw r = None"
    by simp
  have c: "py_int ''1'' = Some 1" "get_customer shop_db 1 \<noteq> None"
    by code_simp+
  have f: "format_raw (Some ''abc'') = ''abc''" "format_raw None = ''None''"
    "format_raw (Some [CHR 0x1C, CHR ''5'']) = [CHR 0x1C, CHR ''5'']"
    by (simp_all add: format_raw_def)
  from create_order_all_ids_unparseable [OF h1 h2', of 0 shop_db] c f h2 show ?thesis
    by auto
qed

section \<open>Decimal arithmetic\<close>

lemma dec_val_powi: "dec_val d = of_int (coefficient d) * 10 powi (exponent d)"
  by (simp add: dec_val_def power_int_def field_simps)

lemma pow_nat_powi: "0 \<le> k \<Longrightarrow> (10::rat) ^ nat k = 10 powi k"
  by (simp add: power_int_def)

lemma shift_powi: "e \<le> e1 \<Longrightarrow> (10::rat) ^ nat (e1 - e) * 10 powi e = 10 powi e1"
proof -
  assume "e \<le> e1"
  then have "(10::rat) ^ nat (e1 - e) = 10 powi (e1 - e)"
    by (simp add: pow_nat_powi)
  moreover have "(10::rat) powi (e1 - e + e) = 10 powi (e1 - e) * 10 powi e"
    by (rule power_int_add) simp
  ultimately show ?thesis by simp
qed

lemma dec_val_add: "dec_val (dec_add a b) = dec_val a + dec_val b"
proof -
  define e where "e = min (exponent a) (exponent b)"
  have ea: "e \<le> exponent a" and eb: "e \<le> exponent b"
    by (simp_all add: e_def)
  have "dec_val (dec_add a b) =
      (of_int (coefficient a) * 10 ^ nat (exponent a - e) +
       of_int (coefficient b) * 10 ^ nat (exponent b - e)) * 10 powi e"
    by (simp add: dec_val_powi dec_add_def Let_def e_def)
  also have "\<dots> = of_int (coefficient a) * (10 ^ nat (exponent a - e) * 10 powi e) +
       of_int (coefficient b) * (10 ^ nat (exponent b - e) * 10 powi e)"
    by (simp add: algebra_simps)
  also have "\<dots> = dec_val a + dec_val b"
    by (simp add: shift_powi [OF ea] shift_powi [OF eb] dec_val_powi)
  finally show ?thesis .
qed

lemma dec_val_foldl:
  "dec_val (foldl dec_add acc ds) = dec_val acc + sum_list (map dec_val ds)"
  by (induction ds arbitrary: acc) (simp_all add: dec_val_add)

lemma dec_val_zero: "dec_val (Decimal 0 0) = 0"
  by (simp add: dec_val_def)

lemma dec_val_sum: "dec_val (dec_sum ds) = sum_list (map dec_val ds)"
  by (simp add: dec_sum_def dec_val_foldl dec_val_zero)

lemma round_half_up_floor:
  assumes "0 < m"
  shows "round_half_up c m = sgn c * \<lfloor>\<bar>of_int c :: rat\<bar> / of_int m + 1 / 2\<rfloor>"
proof -
  have "\<bar>of_int c :: rat\<bar> / of_int m + 1 / 2 = of_int (2 * \<bar>c\<bar> + m) / of_int (2 * m)"
    using assms by (simp add: field_simps)
  then have "\<lfloor>\<bar>of_int c :: rat\<bar> / of_int m + 1 / 2\<rfloor> = (2 * \<bar>c\<bar> + m) div (2 * m)"
    by (simp only: floor_divide_of_int_eq)
  then show ?thesis by (simp add: round_half_up_def)
qed

lemma round_half_up_one: "round_half_up c 1 = c"
proof -
  have "(2 * \<bar>c\<bar> + 1) div 2 = \<bar>c\<bar>" by simp
  then show ?thesis by (simp add: round_half_up_def mult_sgn_abs)
qed

lemma round_half_up_2dp_scaled:
  assumes "0 < m"
  shows "round_half_up_2dp (of_int c / (of_int m * 100)) = of_int (round_half_up c m) / 100"
proof -
  let ?x = "of_int c / (of_int m * 100) :: rat"
  have "sgn (of_int m * 100 :: rat) = 1"
    using assms by (simp add: sgn_mult)
  moreover have "sgn (of_int c :: rat) = of_int (sgn c)"
    by (simp add: sgn_if)
  ultimately have s: "sgn ?x = of_int (sgn c)"
    by (simp only: sgn_divide div_by_1)
  have a: "\<bar>?x\<bar> * 100 = \<bar>of_int c\<bar> / of_int m"
    using assms by (simp add: abs_mult)
  show ?thesis
    unfolding round_half_up_2dp_def s a round_half_up_floor [OF assms] by simp
qed

lemma quantize_cent_val:
  assumes "quantize d cent = Inr r"
  shows "dec_val r = round_half_up_2dp (dec_val d) \<and> exponent r = - 2"
proof -
  define c where "c = coefficient d"
  define e where "e = exponent d"
  define c' where "c' = (if - 2 \<le> e then c * 10 ^ nat (e + 2) else round_half_up c (10 ^ nat (- 2 - e)))"
  from assms have r: "r = Decimal c' (- 2)"
    by (auto simp: quantize_def cent_def Let_def c'_def c_def e_def split: if_splits)
  have hundred: "(10::rat) powi (- 2) = 1 / 100"
    by (simp add: power_int_def power2_eq_square)
  have vr: "dec_val r = of_int c' / 100"
    by (simp add: r dec_val_powi hundred)
  have vd: "dec_val d = of_int c * 10 powi e"
    by (simp add: dec_val_powi c_def e_def)
  have "dec_val r = round_half_up_2dp (dec_val d)"
  proof (cases "- 2 \<le> e")
    case True
    then have "(10::rat) ^ nat (e - (- 2)) * 10 powi (- 2) = 10 powi e"
      by (intro shift_powi) simp
    then have p: "(10::rat) powi e = 10 ^ nat (e + 2) / 100"
      by (simp add: hundred)
    from True have c': "c' = c * 10 ^ nat (e + 2)"
      by (simp add: c'_def)
    have "dec_val d = of_int c' / (of_int 1 * 100)"
      by (simp add: vd p c')
    then have "round_half_up_2dp (dec_val d) = of_int (round_half_up c' 1) / 100"
      by (simp only: round_half_up_2dp_scaled [of 1 c'] zero_less_one)
    then show ?thesis
      by (simp add: vr round_half_up_one)
  next
    case False
    define m :: int where "m = 10 ^ nat (- 2 - e)"
    have m: "0 < m" by (simp add: m_def)
    from False have "(10::rat) ^ nat (- 2 - e) * 10 powi e = 10 powi (- 2)"
      by (intro shift_powi) simp
    then have "of_int m * (10::rat) powi e = 1 / 100"
      by (simp add: m_def hundred)
    then have p: "(10::rat) powi e = 1 / (of_int m * 100)"
      using m by (simp add: field_simps)
    from False have c': "c' = round_half_up c m"
      by (simp add: c'_def m_def)
    have "dec_val d = of_int c / (of_int m * 100)"
      by (simp add: vd p)
    then have "round_half_up_2dp (dec_val d) = of_int (round_half_up c m) / 100"
      by (simp only: round_half_up_2dp_scaled [OF m])
    then show ?thesis
      by (simp add: vr c')
  qed
  with r show ?thesis by simp
qed

section \<open>Order creation: success\<close>

lemma fromkeys_foldl_first_seen:
  "foldl (\<lambda>keys x. if x \<in> set keys then keys else keys @ [x]) acc xs
     = acc @ first_seen (filter (\<lambda>x. x \<notin> set acc) xs)"
proof (induction xs arbitrary: acc)
  case Nil
  then show ?case by simp
next
  case (Cons x xs)
  show ?case
  proof (cases "x \<in> set acc")
    case True
    then show ?thesis by (simp add: Cons.IH)
  next
    case False
    have "removeAll x (filter (\<lambda>y. y \<notin> set acc) xs) = filter (\<lambda>y. y \<notin> set (acc @ [x])) xs"
      by (induction xs) auto
    with False show ?thesis by (simp add: Cons.IH)
  qed
qed

lemma dict_fromkeys_first_seen: "dict_fromkeys xs = first_seen xs"
  by (simp add: dict_fromkeys_def fromkeys_foldl_first_seen)

lemma sum_list_map_insort_key:
  "sum_list (map f (insort_key g x xs)) = f x + sum_list (map f xs)"
  for f :: "'a \<Rightarrow> rat"
  by (induction xs) (simp_all add: algebra_simps)

lemma sum_list_map_sort_key:
  "sum_list (map f (sort_key g xs)) = sum_list (map f xs)"
  for f :: "'a \<Rightarrow> rat"
  by (induction xs) (simp_all add: sum_list_map_insort_key)

lemma missing_Nil_iff: "missing_product_ids ids rows = [] \<longleftrightarrow> set ids \<subseteq> fst ` set rows"
proof -
  have "finite (set ids - set (map fst rows))" by simp
  then have "sorted_list_of_set (set ids - set (map fst rows)) = [] \<longleftrightarrow> set ids - set (map fst rows) = {}"
    by (rule sorted_list_of_set_eq_Nil_iff)
  then show ?thesis by (auto simp: missing_product_ids_def)
qed

lemma distinct_matching_products:
  "distinct (map fst (products db)) \<Longrightarrow> distinct (map fst (matching_products db ids))"
  by (auto simp: matching_products_def distinct_map distinct_map_filter intro: inj_on_subset)

text \<open>
  C2. When \<open>createOrder\<close> succeeds on a database whose product keys are distinct (they
  are primary keys), the product ids kept are the parsed ids de-duplicated in
  first-seen order; the rows added to the order-product relation link the new order to
  every distinct id exactly once and to nothing else; and the total is the sum of the
  prices of the products with those ids, rounded half-up to two decimals. With the ids
  \<open>2, 2, 3\<close> the order is linked to the products 2 and 3 once each.
\<close>

theorem create_order_success:
  assumes ok: "create_order_mutate now db input = Inr (CreateOrder (Some (k, ord)) errs, db')"
    and pk: "distinct (map fst (products db))"
  shows "dict_fromkeys (parsed_ids input) = first_seen (parsed_ids input) \<and>
    (\<exists>pids. order_products db' = order_products db @ map (Pair k) pids \<and>
            distinct pids \<and> set pids = set (parsed_ids input)) \<and>
    dec_val (order.total_amount ord) =
      round_half_up_2dp
        (sum_list (map (\<lambda>row. dec_val (product.price (snd row)))
           (filter (\<lambda>row. fst row \<in> set (parsed_ids input)) (products db)))) \<and>
    exponent (order.total_amount ord) = - 2 \<and>
    orders db' = orders db @ [(k, ord)] \<and> errs = []"
proof -
  define ids where "ids = dict_fromkeys (parsed_ids input)"
  define rows where "rows = matching_products db (parsed_ids input)"
  from ok obtain ids0 found rows0 where
    oc: "order_checks db input = Inr (ids0, found, rows0, [])"
    by (auto simp: create_order_mutate_def Let_def split: sum.splits prod.splits if_splits)
  then have nonempty: "parsed_ids input \<noteq> []"
    by (auto simp: order_checks_eq split: sum.splits if_splits)
  with oc have fp: "filter_products db ids = Inr rows0"
    and miss0: "missing_product_ids (parsed_ids input) rows0 = []"
    by (auto simp: order_checks_eq ids_def split: sum.splits if_splits)
  from fp have rows0: "rows0 = rows"
    using filter_products_cases [of db ids]
    by (auto simp: rows_def ids_def matching_products_dict_fromkeys)
  from miss0 have miss: "missing_product_ids (parsed_ids input) (products db) = []"
    by (simp add: rows0 rows_def missing_matching_products)
  from ok oc obtain rounded and crow :: "int \<times> customer" where
    q: "quantize (dec_sum (map (\<lambda>row. product.price (snd row)) rows)) cent = Inr rounded"
    and k: "k = next_pk (orders db)"
    and ord: "ord = \<lparr>order.customer = fst crow, total_amount = rounded,
        order_date = (case order_input.order_date input of Some d \<Rightarrow> d | None \<Rightarrow> now)\<rparr>"
    and db': "db' = db\<lparr>orders := orders db @ [(k, ord)],
        order_products := order_products db @ map (\<lambda>row. (k, fst row)) rows\<rparr>"
    and errs: "errs = []"
    by (auto simp: create_order_mutate_def rows0 Let_def
        split: sum.splits option.splits if_splits)
  have "set (map fst rows) = set (parsed_ids input)"
    using miss by (auto simp: rows_def set_matching_products missing_Nil_iff)
  moreover have "distinct (map fst rows)"
    using pk by (simp add: rows_def distinct_matching_products)
  moreover have "order_products db' = order_products db @ map (Pair k) (map fst rows)"
    by (simp add: db' comp_def)
  ultimately have links: "\<exists>pids. order_products db' = order_products db @ map (Pair k) pids \<and>
            distinct pids \<and> set pids = set (parsed_ids input)"
    by blast
  have "sum_list (map (\<lambda>row. dec_val (product.price (snd row))) rows)
      = sum_list (map (\<lambda>row. dec_val (product.price (snd row)))
           (filter (\<lambda>row. fst row \<in> set (parsed_ids input)) (products db)))"
    by (simp add: rows_def matching_products_def sum_list_map_sort_key)
  moreover have "dec_val (dec_sum (map (\<lambda>row. product.price (snd row)) rows))
      = sum_list (map (\<lambda>row. dec_val (product.price (snd row))) rows)"
    by (simp add: dec_val_sum comp_def)
  ultimately have total: "dec_val (order.total_amount ord) =
      round_half_up_2dp
        (sum_list (map (\<lambda>row. dec_val (product.price (snd row)))
           (filter (\<lambda>row. fst row \<in> set (parsed_ids input)) (products db))))"
    and ex: "exponent (order.total_amount ord) = - 2"
    using quantize_cent_val [OF q] by (simp_all add: ord)
  show ?thesis
    using links total ex errs by (simp add: dict_fromkeys_first_seen db')
qed

theorem create_order_success_witness:
  "create_order_mutate 0 shop_db
       \<lparr>customer_id = ''1'', product_ids = [Some ''2'', Some ''2'', Some ''3''], order_date = None\<rparr>
     = Inr (CreateOrder
             (Some (1, \<lparr>order.customer = 1, total_amount = Decimal 119949 (- 2), order_date = 0\<rparr>)) [],
            shop_db\<lparr>orders := [(1, \<lparr>order.customer = 1, total_amount = Decimal 119949 (- 2),
                                       order_date = 0\<rparr>)],
                    order_products := [(1, 3), (1, 2)]\<rparr>) \<and>
   distinct (map fst (products shop_db)) \<and>
   parsed_ids \<lparr>customer_id = ''1'', product_ids = [Some ''2'', Some ''2'', Some ''3''],
               order_date = None\<rparr> = [2, 2, 3] \<and>
   dict_fromkeys [2, 2, 3 :: int] = [2, 3] \<and>
   first_seen [2, 2, 3 :: int] = [2, 3] \<and>
   dec_val (Decimal 119949 (- 2)) =
     round_half_up_2dp (dec_val (Decimal 99999 (- 2)) + dec_val (Decimal 19950 (- 2)))"
proof -
  let ?input = "\<lparr>customer_id = ''1'', product_ids = [Some ''2'', Some ''2'', Some ''3''],
                  order_date = None\<rparr>"
  let ?ord = "\<lparr>order.customer = 1, total_amount = Decimal 119949 (- 2), order_date = 0\<rparr>"
  have h1: "create_order_mutate 0 shop_db ?input
     = Inr (CreateOrder (Some (1, ?ord)) [],
            shop_db\<lparr>orders := [(1, ?ord)], order_products := [(1, 3), (1, 2)]\<rparr>)"
    by code_simp
  have h2: "distinct (map fst (products shop_db))"
    by (simp add: shop_db_def)
  have p: "parsed_ids ?input = [2, 2, 3]"
    by code_simp
  have d: "dict_fromkeys [2, 2, 3 :: int] = [2, 3]"
    by code_simp
  have f: "first_seen [2, 2, 3 :: int] = [2, 3]"
    by simp
  have "dec_val (order.total_amount ?ord) =
      round_half_up_2dp
        (sum_list (map (\<lambda>row. dec_val (product.price (snd row)))
           (filter (\<lambda>row. fst row \<in> set (parsed_ids ?input)) (products shop_db))))"
    using create_order_success [OF h1 h2] by blast
  then have t: "dec_val (Decimal 119949 (- 2)) =
     round_half_up_2dp (dec_val (Decimal 99999 (- 2)) + dec_val (Decimal 19950 (- 2)))"
    by (simp add: p shop_db_def)
  from h1 h2 p d f t show ?thesis
    by (intro conjI)
qed

section \<open>Bulk customer creation\<close>

lemma bulk_loop_append:
  "bulk_loop ex i (xs @ ys) st = bulk_loop ex (i + length xs) ys (bulk_loop ex i xs st)"
  by (induction xs arbitrary: i st) simp_all

lemma bulk_loop_snoc:
  "bulk_loop ex i (xs @ [x]) st = bulk_step ex (i + length xs) x (bulk_loop ex i xs st)"
  by (simp add: bulk_loop_append)

lemma row_errors_Nil_iff:
  "row_errors ex seen payload = [] \<longleftrightarrow>
     row_name payload \<noteq> [] \<and> row_email payload \<noteq> [] \<and> row_email payload \<notin> ex \<and>
     row_email payload \<notin> seen \<and>
     (row_phone payload = [] \<or> phone_regex_match (row_phone payload))"
  by (auto simp: row_errors_def validate_phone_def Let_def split: sum.splits if_splits)

lemma bulk_inv_init: "bulk_inv bulk_init"
  by (simp add: bulk_inv_def bulk_init_def)

lemma bulk_inv_step: "bulk_inv st \<Longrightarrow> bulk_inv (bulk_step ex i payload st)"
  by (auto simp: bulk_inv_def bulk_step_def Let_def row_errors_Nil_iff row_customer_def)

lemma bulk_inv_loop: "bulk_inv st \<Longrightarrow> bulk_inv (bulk_loop ex i xs st)"
  by (induction xs arbitrary: i st) (simp_all add: bulk_inv_step)

lemma bulk_step_grows:
  "\<exists>ps es. pending (bulk_step ex i payload st) = pending st @ ps \<and>
           errors (bulk_step ex i payload st) = errors st @ es \<and>
           length ps + length es = 1"
  by (simp add: bulk_step_def Let_def)

lemma bulk_loop_grows:
  "\<exists>ps es. pending (bulk_loop ex i xs st) = pending st @ ps \<and>
           errors (bulk_loop ex i xs st) = errors st @ es \<and>
           length ps + length es = length xs"
proof (induction xs arbitrary: i st)
  case Nil
  then show ?case by simp
next
  case (Cons x xs)
  obtain ps es where s: "pending (bulk_step ex i x st) = pending st @ ps"
      "errors (bulk_step ex i x st) = errors st @ es" "length ps + length es = 1"
    using bulk_step_grows by blast
  obtain ps' es' where l: "pending (bulk_loop ex (Suc i) xs (bulk_step ex i x st))
        = pending (bulk_step ex i x st) @ ps'"
      "errors (bulk_loop ex (Suc i) xs (bulk_step ex i x st)) = errors (bulk_step ex i x st) @ es'"
      "length ps' + length es' = length xs"
    using Cons.IH by blast
  have "pending (bulk_loop ex i (x # xs) st) = pending st @ (ps @ ps')"
    and "errors (bulk_loop ex i (x # xs) st) = errors st @ (es @ es')"
    and "length (ps @ ps') + length (es @ es') = length (x # xs)"
    using s l by simp_all
  then show ?case by blast
qed

lemma map_snd_bulk_create: "map snd (bulk_create table ps) = ps"
  by (simp add: bulk_create_def)

lemma map_fst_bulk_create:
  "map fst (bulk_create table ps) = map (\<lambda>k. next_pk table + int k) [0..<length ps]"
  by (simp add: bulk_create_def)

lemma bulk_create_Nil: "bulk_create table [] = []"
  by (simp add: bulk_create_def)

lemma bulk_mutate_eq:
  "input \<noteq> [] \<Longrightarrow>
   bulk_create_customers_mutate db input =
     Inr (BulkCreateCustomers
            (bulk_create (customers db) (pending (bulk_loop (existing_emails db) 0 input bulk_init)))
            (errors (bulk_loop (existing_emails db) 0 input bulk_init)),
          db\<lparr>customers := customers db @
               bulk_create (customers db) (pending (bulk_loop (existing_emails db) 0 input bulk_init))\<rparr>)"
  by (simp add: bulk_create_customers_mutate_def Let_def bulk_create_Nil)

text \<open>
  A batch of two rows of which exactly one is valid: the valid row alone is inserted and
  the invalid one leaves the only error, labelled with its index.
\<close>

lemma str_int_one: "str_int 1 = ''1''" and str_int_two: "str_int 2 = ''2''"
  by (simp_all add: str_int_def digit_char_def)

lemma bulk_create_one_invalid_one_valid:
  assumes "ex = existing_emails db" and "k = next_pk (customers db)"
  shows "row_errors ex {} a \<noteq> [] \<and> row_errors ex {} b = [] \<longrightarrow>
     bulk_create_customers_mutate db [a, b] =
       Inr (BulkCreateCustomers [(k, row_customer b)]
              [''Entry 1: '' @ py_join ''; '' (row_errors ex {} a)],
            db\<lparr>customers := customers db @ [(k, row_customer b)]\<rparr>)"
    and "row_errors ex {} a = [] \<and> row_errors ex {row_email a} b \<noteq> [] \<longrightarrow>
     bulk_create_customers_mutate db [a, b] =
       Inr (BulkCreateCustomers [(k, row_customer a)]
              [''Entry 2: '' @ py_join ''; '' (row_errors ex {row_email a} b)],
            db\<lparr>customers := customers db @ [(k, row_customer a)]\<rparr>)"
  by (simp_all add: assms bulk_create_customers_mutate_def bulk_step_def bulk_init_def Let_def
      entry_message_def str_int_one str_int_two bulk_create_def)

text \<open>
  C6. Take any row of a non-empty batch, with the rows \<open>pre\<close> before it and \<open>post\<close> after
  it, and let \<open>errs\<close> be the errors the loop finds for it. The row is valid exactly when
  its name and email are not blank, its email is neither stored already nor that of a
  pending row, and its phone is empty or matches. An invalid row adds the one string
  \<open>Entry <1-based index>: <errors joined with "; ">\<close> to the errors and leaves the pending
  instances as they were; a valid row adds its instance to the pending ones and no
  error. Later rows only append, every row ends in exactly one of the two lists, and the
  mutation inserts the pending instances in one bulk insert and returns them with the
  errors. (For a batch of one invalid and one valid row this is
  \<open>bulk_create_one_invalid_one_valid\<close>.)
\<close>

theorem bulk_create_row_by_row:
  assumes ex: "ex = existing_emails db"
    and before: "before = bulk_loop ex 0 pre bulk_init"
    and after: "after = bulk_loop ex 0 (pre @ [payload]) bulk_init"
    and final: "final = bulk_loop ex 0 (pre @ payload # post) bulk_init"
    and errs: "errs = row_errors ex (seen_emails before) payload"
  shows
    "(errs = [] \<longleftrightarrow>
        row_name payload \<noteq> [] \<and> row_email payload \<noteq> [] \<and> row_email payload \<notin> ex \<and>
        row_email payload \<notin> customer.email ` set (pending before) \<and>
        (row_phone payload = [] \<or> phone_regex_match (row_phone payload))) \<and>
     (errs \<noteq> [] \<longrightarrow>
        after = before\<lparr>errors := errors before @
                  [''Entry '' @ str_int (int (length pre) + 1) @ '': '' @ py_join ''; '' errs]\<rparr>) \<and>
     (errs = [] \<longrightarrow>
        after = before\<lparr>seen_emails := insert (row_email payload) (seen_emails before),
                       pending := pending before @ [row_customer payload]\<rparr>) \<and>
     (\<exists>ps es. pending final = pending after @ ps \<and> errors final = errors after @ es) \<and>
     length (pending final) + length (errors final) = length (pre @ payload # post) \<and>
     bulk_create_customers_mutate db (pre @ payload # post) =
       Inr (BulkCreateCustomers (bulk_create (customers db) (pending final)) (errors final),
            db\<lparr>customers := customers db @ bulk_create (customers db) (pending final)\<rparr>) \<and>
     map snd (bulk_create (customers db) (pending final)) = pending final"
proof -
  have inv: "bulk_inv before"
    unfolding before by (intro bulk_inv_loop bulk_inv_init)
  have step: "after = bulk_step ex (length pre) payload before"
    by (simp add: after before bulk_loop_snoc)
  have valid: "errs = [] \<longleftrightarrow>
        row_name payload \<noteq> [] \<and> row_email payload \<noteq> [] \<and> row_email payload \<notin> ex \<and>
        row_email payload \<notin> customer.email ` set (pending before) \<and>
        (row_phone payload = [] \<or> phone_regex_match (row_phone payload))"
    using inv by (simp add: errs row_errors_Nil_iff bulk_inv_def)
  have bad: "errs \<noteq> [] \<longrightarrow>
        after = before\<lparr>errors := errors before @
                  [''Entry '' @ str_int (int (length pre) + 1) @ '': '' @ py_join ''; '' errs]\<rparr>"
    by (simp add: step errs bulk_step_def entry_message_def Let_def)
  have good: "errs = [] \<longrightarrow>
        after = before\<lparr>seen_emails := insert (row_email payload) (seen_emails before),
                       pending := pending before @ [row_customer payload]\<rparr>"
    by (simp add: step errs bulk_step_def Let_def)
  have "final = bulk_loop ex (Suc (length pre)) post after"
    using bulk_loop_append [of ex 0 "pre @ [payload]" post bulk_init]
    by (simp add: final after)
  then have grow: "\<exists>ps es. pending final = pending after @ ps \<and> errors final = errors after @ es"
    using bulk_loop_grows [of ex "Suc (length pre)" post after] by auto
  have count: "length (pending final) + length (errors final) = length (pre @ payload # post)"
    using bulk_loop_grows [of ex 0 "pre @ payload # post" bulk_init]
    unfolding final by (auto simp: bulk_init_def)
  have res: "bulk_create_customers_mutate db (pre @ payload # post) =
       Inr (BulkCreateCustomers (bulk_create (customers db) (pending final)) (errors final),
            db\<lparr>customers := customers db @ bulk_create (customers db) (pending final)\<rparr>)"
    unfolding final ex by (rule bulk_mutate_eq) simp
  show ?thesis
    using valid bad good grow count res map_snd_bulk_create [of "customers db" "pending final"]
    by blast
qed

theorem bulk_create_row_by_row_witness:
  "row_errors (existing_emails shop_db) {}
       \<lparr>customer_input.name = ''  '', email = ''carol@example.com'', phone = None\<rparr>
     = [''Name is required.''] \<and>
   bulk_loop (existing_emails shop_db) 0
       [\<lparr>customer_input.name = ''  '', email = ''carol@example.com'', phone = None\<rparr>] bulk_init
     = bulk_init\<lparr>errors := [''Entry 1: Name is required.'']\<rparr> \<and>
   bulk_create_customers_mutate shop_db
       [\<lparr>customer_input.name = ''  '', email = ''carol@example.com'', phone = None\<rparr>,
        \<lparr>customer_input.name = ''Bob'', email = ''Bob@Example.com'', phone = Some ''123-456-7890''\<rparr>]
     = Inr (BulkCreateCustomers
             [(2, \<lparr>customer.name = ''Bob'', email = ''bob@example.com'', phone = ''123-456-7890''\<rparr>)]
             [''Entry 1: Name is required.''],
            shop_db\<lparr>customers := customers shop_db @
              [(2, \<lparr>customer.name = ''Bob'', email = ''bob@example.com'',
                     phone = ''123-456-7890''\<rparr>)]\<rparr>)"
proof -
  let ?bad = "\<lparr>customer_input.name = ''  '', email = ''carol@example.com'', phone = None\<rparr>"
  let ?good = "\<lparr>customer_input.name = ''Bob'', email = ''Bob@Example.com'',
                 phone = Some ''123-456-7890''\<rparr>"
  let ?ex = "existing_emails shop_db"
  let ?final = "bulk_loop ?ex 0 [?bad, ?good] bulk_init"
  have e: "row_errors ?ex (seen_emails (bulk_loop ?ex 0 [] bulk_init)) ?bad = [''Name is required.'']"
    by code_simp
  have s: "str_int (int (length ([] :: customer_input list)) + 1) = ''1''"
    by code_simp
  have p: "pending ?final
      = [\<lparr>customer.name = ''Bob'', email = ''bob@example.com'', phone = ''123-456-7890''\<rparr>]"
    by code_simp
  have r: "errors ?final = [''Entry 1: Name is required.'']"
    by code_simp
  have c: "bulk_create (customers shop_db) (pending ?final)
      = [(2, \<lparr>customer.name = ''Bob'', email = ''bob@example.com'', phone = ''123-456-7890''\<rparr>)]"
    unfolding p by code_simp
  note t = bulk_create_row_by_row [OF refl refl refl refl refl, of shop_db "[]" ?bad "[?good]"]
  from t e s have "bulk_loop ?ex 0 ([] @ [?bad]) bulk_init
      = (bulk_loop ?ex 0 [] bulk_init)\<lparr>errors := errors (bulk_loop ?ex 0 [] bulk_init) @
           [''Entry '' @ ''1'' @ '': '' @ py_join ''; '' [''Name is required.'']]\<rparr>"
    by simp
  then have a: "bulk_loop ?ex 0 [?bad] bulk_init = bulk_init\<lparr>errors := [''Entry 1: Name is required.'']\<rparr>"
    by (simp add: bulk_init_def)
  from t have "bulk_create_customers_mutate shop_db ([] @ ?bad # [?good]) =
       Inr (BulkCreateCustomers
              (bulk_create (customers shop_db)
                 (pending (bulk_loop ?ex 0 ([] @ ?bad # [?good]) bulk_init)))
              (errors (bulk_loop ?ex 0 ([] @ ?bad # [?good]) bulk_init)),
            shop_db\<lparr>customers := customers shop_db @
              bulk_create (customers shop_db)
                (pending (bulk_loop ?ex 0 ([] @ ?bad # [?good]) bulk_init))\<rparr>)"
    by blast
  then have m: "bulk_create_customers_mutate shop_db [?bad, ?good] =
       Inr (BulkCreateCustomers
             [(2, \<lparr>customer.name = ''Bob'', email = ''bob@example.com'', phone = ''123-456-7890''\<rparr>)]
             [''Entry 1: Name is required.''],
            shop_db\<lparr>customers := customers shop_db @
              [(2, \<lparr>customer.name = ''Bob'', email = ''bob@example.com'',
                     phone = ''123-456-7890''\<rparr>)]\<rparr>)"
    by (simp only: c r append_Nil)
  have e': "row_errors ?ex {} ?bad = [''Name is required.'']"
    by code_simp
  from e' a m show ?thesis
    by (intro conjI)
qed

lemma count_one:
  "distinct (map f xs) \<Longrightarrow> e \<in> f ` set xs \<Longrightarrow> length (filter (\<lambda>x. f x = e) xs) = 1"
proof (induction xs)
  case Nil
  then show ?case by simp
next
  case (Cons x xs)
  show ?case
  proof (cases "f x = e")
    case True
    with Cons.prems have "e \<notin> f ` set xs" by auto
    then have "filter (\<lambda>x. f x = e) xs = []" by (auto simp: filter_empty_conv)
    with True show ?thesis by simp
  next
    case False
    with Cons show ?thesis by auto
  qed
qed

text \<open>
  C3, as stated, fails: a row whose email equals that of an earlier row is not flagged
  when the earlier row was itself rejected. Here the first row has no name, so the
  second row, with the same email, is inserted.
\<close>

theorem bulk_duplicate_counterexample:
  "row_email \<lparr>customer_input.name = ''Bob'', email = ''a@b.com'', phone = None\<rparr>
     = row_email \<lparr>customer_input.name = '''', email = ''a@b.com'', phone = None\<rparr> \<and>
   row_email \<lparr>customer_input.name = ''Bob'', email = ''a@b.com'', phone = None\<rparr>
     \<notin> existing_emails empty_db \<and>
   bulk_create_customers_mutate empty_db
       [\<lparr>customer_input.name = '''', email = ''a@b.com'', phone = None\<rparr>,
        \<lparr>customer_input.name = ''Bob'', email = ''a@b.com'', phone = None\<rparr>]
     = Inr (BulkCreateCustomers
             [(1, \<lparr>customer.name = ''Bob'', email = ''a@b.com'', phone = []\<rparr>)]
             [''Entry 1: Name is required.''],
            empty_db\<lparr>customers :=
              [(1, \<lparr>customer.name = ''Bob'', email = ''a@b.com'', phone = []\<rparr>)]\<rparr>)"
  by code_simp

text \<open>
  C3, amended. A row whose trimmed, lower-cased email is that of an earlier row of the
  batch that was accepted for insertion, and is not the email of a stored customer, is
  flagged \<open>Duplicate email within request.\<close> and not \<open>Email already exists.\<close>; its entry
  is in the errors returned, the pending instances are unchanged by it, and of the rows
  inserted exactly one carries that email.
\<close>

theorem bulk_duplicate_of_accepted_row:
  assumes ex: "ex = existing_emails db"
    and before: "before = bulk_loop ex 0 pre bulk_init"
    and final: "final = bulk_loop ex 0 (pre @ payload # post) bulk_init"
    and errs: "errs = row_errors ex (seen_emails before) payload"
    and dup: "row_email payload \<in> customer.email ` set (pending before)"
    and new: "row_email payload \<notin> ex"
  shows
    "errs = (if row_name payload = [] then [''Name is required.''] else []) @
            [''Duplicate email within request.''] @
            (if row_phone payload \<noteq> [] \<and> \<not> phone_regex_match (row_phone payload)
             then [''Phone number must be +<digits> or 123-456-7890 format.''] else []) \<and>
     ''Email already exists.'' \<notin> set errs \<and>
     bulk_loop ex 0 (pre @ [payload]) bulk_init =
       before\<lparr>errors := errors before @
         [''Entry '' @ str_int (int (length pre) + 1) @ '': '' @ py_join ''; '' errs]\<rparr> \<and>
     ''Entry '' @ str_int (int (length pre) + 1) @ '': '' @ py_join ''; '' errs \<in> set (errors final) \<and>
     bulk_create_customers_mutate db (pre @ payload # post) =
       Inr (BulkCreateCustomers (bulk_create (customers db) (pending final)) (errors final),
            db\<lparr>customers := customers db @ bulk_create (customers db) (pending final)\<rparr>) \<and>
     length (filter (\<lambda>row. customer.email (snd row) = row_email payload)
               (bulk_create (customers db) (pending final))) = 1"
proof -
  define after where "after = bulk_loop ex 0 (pre @ [payload]) bulk_init"
  have inv: "bulk_inv before"
    unfolding before by (intro bulk_inv_loop bulk_inv_init)
  have seen: "row_email payload \<in> seen_emails before" and nonempty: "row_email payload \<noteq> []"
    using inv dup by (auto simp: bulk_inv_def)
  have e: "errs = (if row_name payload = [] then [''Name is required.''] else []) @
            [''Duplicate email within request.''] @
            (if row_phone payload \<noteq> [] \<and> \<not> phone_regex_match (row_phone payload)
             then [''Phone number must be +<digits> or 123-456-7890 format.''] else [])"
    using seen nonempty new by (simp add: errs row_errors_def validate_phone_def Let_def)
  then have ne: "errs \<noteq> []" and notexists: "''Email already exists.'' \<notin> set errs"
    by auto
  have step: "after = bulk_step ex (length pre) payload before"
    by (simp add: after_def before bulk_loop_snoc)
  have a: "after = before\<lparr>errors := errors before @
         [''Entry '' @ str_int (int (length pre) + 1) @ '': '' @ py_join ''; '' errs]\<rparr>"
    using ne by (simp add: step errs bulk_step_def entry_message_def Let_def)
  have "final = bulk_loop ex (Suc (length pre)) post after"
    using bulk_loop_append [of ex 0 "pre @ [payload]" post bulk_init]
    by (simp add: final after_def)
  then obtain ps es where grow: "pending final = pending after @ ps" "errors final = errors after @ es"
    using bulk_loop_grows [of ex "Suc (length pre)" post after] by auto
  have entry: "''Entry '' @ str_int (int (length pre) + 1) @ '': '' @ py_join ''; '' errs
      \<in> set (errors final)"
    by (simp add: grow a)
  have res: "bulk_create_customers_mutate db (pre @ payload # post) =
       Inr (BulkCreateCustomers (bulk_create (customers db) (pending final)) (errors final),
            db\<lparr>customers := customers db @ bulk_create (customers db) (pending final)\<rparr>)"
    unfolding final ex by (rule bulk_mutate_eq) simp
  have "bulk_inv final"
    unfolding final by (intro bulk_inv_loop bulk_inv_init)
  then have d: "distinct (map customer.email (pending final))"
    by (simp add: bulk_inv_def)
  from dup have m: "row_email payload \<in> customer.email ` set (pending final)"
    by (auto simp: grow a)
  have "length (filter (\<lambda>c. customer.email c = row_email payload) (pending final)) = 1"
    using d m by (rule count_one)
  then have "length (filter (\<lambda>c. customer.email c = row_email payload)
               (map snd (bulk_create (customers db) (pending final)))) = 1"
    by (simp only: map_snd_bulk_create)
  then have one: "length (filter (\<lambda>row. customer.email (snd row) = row_email payload)
               (bulk_create (customers db) (pending final))) = 1"
    by (simp add: filter_map comp_def)
  show ?thesis
    using e notexists a [unfolded after_def] entry res one by blast
qed

theorem bulk_duplicate_of_accepted_row_witness:
  "row_email \<lparr>customer_input.name = ''Bobby'', email = '' BOB@example.com'', phone = None\<rparr>
     \<in> customer.email ` set (pending (bulk_loop (existing_emails shop_db) 0
           [\<lparr>customer_input.name = ''Bob'', email = ''bob@example.com'', phone = None\<rparr>] bulk_init)) \<and>
   row_email \<lparr>customer_input.name = ''Bobby'', email = '' BOB@example.com'', phone = None\<rparr>
     \<notin> existing_emails shop_db \<and>
   bulk_create_customers_mutate shop_db
       [\<lparr>customer_input.name = ''Bob'', email = ''bob@example.com'', phone = None\<rparr>,
        \<lparr>customer_input.name = ''Bobby'', email = '' BOB@example.com'', phone = None\<rparr>]
     = Inr (BulkCreateCustomers
             [(2, \<lparr>customer.name = ''Bob'', email = ''bob@example.com'', phone = []\<rparr>)]
             [''Entry 2: Duplicate email within request.''],
            shop_db\<lparr>customers := customers shop_db @
              [(2, \<lparr>customer.name = ''Bob'', email = ''bob@example.com'', phone = []\<rparr>)]\<rparr>)"
proof -
  let ?first = "\<lparr>customer_input.name = ''Bob'', email = ''bob@example.com'', phone = None\<rparr>"
  let ?second = "\<lparr>customer_input.name = ''Bobby'', email = '' BOB@example.com'', phone = None\<rparr>"
  let ?ex = "existing_emails shop_db"
  let ?final = "bulk_loop ?ex 0 [?first, ?second] bulk_init"
  have h1: "row_email ?second \<in> customer.email ` set (pending (bulk_loop ?ex 0 [?first] bulk_init))"
    by code_simp
  have h2: "row_email ?second \<notin> ?ex"
    by code_simp
  have p: "bulk_create (customers shop_db) (pending ?final)
      = [(2, \<lparr>customer.name = ''Bob'', email = ''bob@example.com'', phone = []\<rparr>)]"
    by code_simp
  have r: "errors ?final = [''Entry 2: Duplicate email within request.'']"
    by code_simp
  from bulk_duplicate_of_accepted_row [OF refl refl refl refl h1 h2, of "[]"]
  have "bulk_create_customers_mutate shop_db ([?first] @ ?second # []) =
       Inr (BulkCreateCustomers
              (bulk_create (customers shop_db)
                 (pending (bulk_loop ?ex 0 ([?first] @ ?second # []) bulk_init)))
              (errors (bulk_loop ?ex 0 ([?first] @ ?second # []) bulk_init)),
            shop_db\<lparr>customers := customers shop_db @
              bulk_create (customers shop_db)
                (pending (bulk_loop ?ex 0 ([?first] @ ?second # []) bulk_init))\<rparr>)"
    by blast
  then have m: "bulk_create_customers_mutate shop_db [?first, ?second] =
       Inr (BulkCreateCustomers
             [(2, \<lparr>customer.name = ''Bob'', email = ''bob@example.com'', phone = []\<rparr>)]
             [''Entry 2: Duplicate email within request.''],
            shop_db\<lparr>customers := customers shop_db @
              [(2, \<lparr>customer.name = ''Bob'', email = ''bob@example.com'', phone = []\<rparr>)]\<rparr>)"
    by (simp only: append_Cons append_Nil p r)
  from h1 h2 m show ?thesis
    by (intro conjI)
qed

section \<open>Customer creation\<close>

lemma lower_char_idem: "lower_char (lower_char c) = lower_char c"
  by (simp add: lower_char_def)

lemma is_space_lower_char: "is_space (lower_char c) = is_space c"
  by (simp add: lower_char_def is_space_def)

lemma py_lower_idem: "py_lower (py_lower s) = py_lower s"
  by (simp add: py_lower_def lower_char_idem)

lemma dropWhile_space_lower:
  "dropWhile is_space (py_lower s) = py_lower (dropWhile is_space s)"
  by (induction s) (simp_all add: py_lower_def is_space_lower_char)

lemma py_strip_lower: "py_strip (py_lower s) = py_lower (py_strip s)"
proof -
  have r: "rev (py_lower s) = py_lower (rev s)" for s
    by (simp add: py_lower_def rev_map)
  show ?thesis
    by (simp add: py_strip_def dropWhile_space_lower r)
qed

lemma dropWhile_strip_fixed:
  "dropWhile P (rev (dropWhile P (rev (dropWhile P s)))) = rev (dropWhile P (rev (dropWhile P s)))"
proof (cases "dropWhile P s")
  case Nil
  then show ?thesis by (simp del: dropWhile_eq_Nil_conv)
next
  case (Cons x t)
  then have nx: "\<not> P x"
    by (metis hd_dropWhile list.sel(1) list.distinct(1))
  have "\<exists>u. dropWhile P (rev t @ [x]) = u @ [x]"
    using nx by (simp add: dropWhile_append)
  then obtain u where "dropWhile P (rev t @ [x]) = u @ [x]" ..
  with Cons nx show ?thesis by simp
qed

lemma py_strip_idem: "py_strip (py_strip s) = py_strip s"
  by (simp add: py_strip_def dropWhile_strip_fixed)

lemma create_customer_stores_trimmed_email:
  assumes "create_customer_mutate db input = (CreateCustomer (Some (k, c)) msg errs, db')"
  shows "py_strip (customer.email c) = customer.email c"
    and "py_lower (customer.email c) = customer.email c"
    and "customers db' = customers db @ [(k, c)]"
  using assms
  by (auto simp: create_customer_mutate_def Let_def py_strip_lower [symmetric] py_strip_idem
      py_lower_idem split: if_splits)

lemma row_email_trimmed: "py_strip (row_email payload) = row_email payload"
  by (simp add: row_email_def py_strip_lower py_strip_idem)

lemma bulk_step_pending:
  "set (pending (bulk_step ex i payload st)) \<subseteq> insert (row_customer payload) (set (pending st))"
  by (auto simp: bulk_step_def Let_def)

lemma bulk_loop_pending:
  "set (pending (bulk_loop ex i xs st)) \<subseteq> set (pending st) \<union> row_customer ` set xs"
proof (induction xs arbitrary: i st)
  case Nil
  then show ?case by simp
next
  case (Cons x xs)
  from Cons.IH [of "Suc i" "bulk_step ex i x st"] bulk_step_pending [of ex i x st]
  show ?case by auto
qed

lemma create_customer_keeps_trimmed:
  "emails_trimmed db \<Longrightarrow> emails_trimmed (snd (create_customer_mutate db input))"
  by (auto simp: emails_trimmed_def create_customer_mutate_def Let_def py_strip_lower [symmetric]
      py_strip_idem)

lemma bulk_create_keeps_trimmed:
  assumes "emails_trimmed db" and "bulk_create_customers_mutate db input = Inr (result, db')"
  shows "emails_trimmed db'"
proof -
  from assms(2) have ne: "input \<noteq> []"
    by (auto simp: bulk_create_customers_mutate_def split: if_splits)
  let ?final = "bulk_loop (existing_emails db) 0 input bulk_init"
  have db': "customers db' = customers db @ bulk_create (customers db) (pending ?final)"
    using assms(2) bulk_mutate_eq [OF ne, of db] by auto
  have "set (pending ?final) \<subseteq> row_customer ` set input"
    using bulk_loop_pending [of "existing_emails db" 0 input bulk_init]
    by (simp add: bulk_init_def)
  then have "\<forall>c \<in> set (pending ?final). py_strip (customer.email c) = customer.email c"
    by (auto simp: row_customer_def row_email_trimmed)
  then have "list_all (\<lambda>c. py_strip (customer.email c) = customer.email c)
      (map snd (bulk_create (customers db) (pending ?final)))"
    by (simp only: map_snd_bulk_create list_all_iff)
  then have "list_all (\<lambda>row. py_strip (customer.email (snd row)) = customer.email (snd row))
      (bulk_create (customers db) (pending ?final))"
    by (simp add: list_all_iff)
  with assms(1) show ?thesis
    by (simp add: emails_trimmed_def db')
qed




text \<open>
  C9. \<open>CreateCustomer.mutate\<close> has no check that the email is present, unlike the loop
  of \<open>BulkCreateCustomers.mutate\<close> (\<open>Email is required.\<close>): an input whose email is
  blank after trimming is accepted when no stored customer has an empty email, and a
  customer with the empty email is stored.
\<close>

theorem create_customer_blank_email:
  "py_strip ''   '' = [] \<and>
   create_customer_mutate empty_db \<lparr>customer_input.name = ''Alice'', email = ''   '', phone = None\<rparr>
     = (CreateCustomer (Some (1, \<lparr>customer.name = ''Alice'', email = [], phone = []\<rparr>))
          (Some ''Customer created successfully.'') [],
        empty_db\<lparr>customers := [(1, \<lparr>customer.name = ''Alice'', email = [], phone = []\<rparr>)]\<rparr>)"
  by code_simp

section \<open>Phone validation: what is accepted\<close>

lemma validate_phone_accepts_iff:
  "validate_phone (Some p) = Inr (Some p) \<longleftrightarrow>
     p = [] \<or> phone_format p \<or> (\<exists>q. p = q @ [CHR 0x0A] \<and> phone_format q)"
proof -
  have "(p \<noteq> [] \<and> last p = CHR 0x0A \<and> phone_format (butlast p))
      \<longleftrightarrow> (\<exists>q. p = q @ [CHR 0x0A] \<and> phone_format q)"
    by (metis butlast_snoc last_snoc snoc_eq_iff_butlast)
  then show ?thesis
    by (auto simp: validate_phone_def phone_regex_match_def phone_format_def)
qed

lemma validate_phone_format_ok: "phone_format p \<Longrightarrow> validate_phone (Some p) = Inr (Some p)"
  by (simp add: validate_phone_accepts_iff)

lemma validate_phone_empty_ok: "validate_phone None = Inr None" "validate_phone (Some []) = Inr (Some [])"
  by (simp_all add: validate_phone_def)

text \<open>
  C7. The regular expression ends in \<open>$\<close>, which in Python also matches just before a
  final newline: a phone made of a plus sign, seven digits and a newline passes the
  validation although it has neither of the two formats.
\<close>

theorem validate_phone_trailing_newline:
  "validate_phone (Some (''+1234567'' @ [CHR 0x0A])) = Inr (Some (''+1234567'' @ [CHR 0x0A])) \<and>
   \<not> phone_format (''+1234567'' @ [CHR 0x0A])"
  by code_simp

section \<open>Product creation\<close>

lemma dec_le_zero_iff: "dec_le_zero d \<longleftrightarrow> dec_val d \<le> 0"
proof -
  have p: "\<not> (10::rat) ^ n \<le> 0" for n
    by (simp add: not_le)
  show ?thesis
    by (auto simp: dec_le_zero_def dec_val_def mult_le_0_iff divide_le_0_iff p)
qed

lemma create_product_rejects:
  assumes "dec_le_zero (product_input.price input) \<or>
           (\<exists>s. product_input.stock input = Some s \<and> s < 0)"
  shows "create_product_mutate db input =
     Inr (CreateProduct None
            ((if dec_le_zero (product_input.price input) then [''Price must be positive.''] else []) @
             (if \<exists>s. product_input.stock input = Some s \<and> s < 0
              then [''Stock cannot be negative.''] else [])), db)"
  using assms by (auto simp: create_product_mutate_def Let_def split: option.splits)

lemma create_product_persists:
  assumes "\<not> dec_le_zero (product_input.price input)"
    and "\<not> (\<exists>s. product_input.stock input = Some s \<and> s < 0)"
    and "quantize (product_input.price input) cent = Inr rounded"
  shows "create_product_mutate db input =
     Inr (CreateProduct
            (Some (next_pk (products db),
                   \<lparr>product.name = py_strip (product_input.name input), price = rounded,
                    stock = (case product_input.stock input of Some s \<Rightarrow> s | None \<Rightarrow> 0)\<rparr>)) [],
          db\<lparr>products := products db @
               [(next_pk (products db),
                 \<lparr>product.name = py_strip (product_input.name input), price = rounded,
                  stock = (case product_input.stock input of Some s \<Rightarrow> s | None \<Rightarrow> 0)\<rparr>)]\<rparr>)"
    and "dec_val rounded = round_half_up_2dp (dec_val (product_input.price input))"
    and "0 \<le> dec_val rounded"
proof -
  show "create_product_mutate db input =
     Inr (CreateProduct
            (Some (next_pk (products db),
                   \<lparr>product.name = py_strip (product_input.name input), price = rounded,
                    stock = (case product_input.stock input of Some s \<Rightarrow> s | None \<Rightarrow> 0)\<rparr>)) [],
          db\<lparr>products := products db @
               [(next_pk (products db),
                 \<lparr>product.name = py_strip (product_input.name input), price = rounded,
                  stock = (case product_input.stock input of Some s \<Rightarrow> s | None \<Rightarrow> 0)\<rparr>)]\<rparr>)"
    using assms by (auto simp: create_product_mutate_def Let_def split: option.splits)
  show v: "dec_val rounded = round_half_up_2dp (dec_val (product_input.price input))"
    using quantize_cent_val [OF assms(3)] by simp
  have "0 < dec_val (product_input.price input)"
    using assms(1) by (simp add: dec_le_zero_iff)
  then show "0 \<le> dec_val rounded"
    unfolding v round_half_up_2dp_def by (simp add: sgn_if)
qed

text \<open>
  C5. The price is compared with zero before it is rounded, so a positive price
  below half a cent passes the check and is stored as \<open>0.00\<close>: the stored price is not
  positive, against the specification and against the model's own \<open>MinValueValidator\<close> of
  \<open>0.01\<close>.
\<close>

theorem create_product_price_rounds_to_zero:
  "\<not> dec_le_zero (Decimal 4 (- 3)) \<and>
   create_product_mutate empty_db \<lparr>product_input.name = ''Pen'', price = Decimal 4 (- 3), stock = None\<rparr>
     = Inr (CreateProduct (Some (1, \<lparr>product.name = ''Pen'', price = Decimal 0 (- 2), stock = 0\<rparr>)) [],
            empty_db\<lparr>products := [(1, \<lparr>product.name = ''Pen'', price = Decimal 0 (- 2), stock = 0\<rparr>)]\<rparr>) \<and>
   dec_val (Decimal 4 (- 3)) = 4 / 1000 \<and>
   dec_val (Decimal 0 (- 2)) = 0"
  by (simp add: dec_val_def) code_simp

section \<open>Filtered queries: payload and errors\<close>

lemma mappings_distinct:
  "distinct (map snd customer_mapping)" "distinct (map snd product_mapping)"
  "distinct (map snd order_mapping)"
  by (simp_all add: customer_mapping_def product_mapping_def order_mapping_def)

lemma payload_foldl_other:
  "lookup \<notin> snd ` set mapping \<Longrightarrow>
   foldl (\<lambda>payload (attr, lookup).
            case getattr given attr of None \<Rightarrow> payload | Some v \<Rightarrow> payload(lookup \<mapsto> v))
     acc mapping lookup = acc lookup"
  by (induction mapping arbitrary: acc) (auto split: option.splits)

lemma payload_foldl_value:
  "distinct (map snd mapping) \<Longrightarrow> (attr, lookup) \<in> set mapping \<Longrightarrow>
   foldl (\<lambda>payload (attr, lookup).
            case getattr given attr of None \<Rightarrow> payload | Some v \<Rightarrow> payload(lookup \<mapsto> v))
     acc mapping lookup = (case getattr given attr of None \<Rightarrow> acc lookup | Some v \<Rightarrow> Some v)"
proof (induction mapping arbitrary: acc)
  case Nil
  then show ?case by simp
next
  case (Cons item rest)
  obtain a l where item: "item = (a, l)" by (cases item)
  show ?case
  proof (cases "(attr, lookup) = (a, l)")
    case True
    with Cons.prems item have "lookup \<notin> snd ` set rest" by auto
    with True item show ?thesis
      by (simp add: payload_foldl_other split: option.splits)
  next
    case False
    with Cons.prems item have mem: "(attr, lookup) \<in> set rest" and d: "distinct (map snd rest)"
      and ne: "l \<noteq> lookup"
      by (auto simp: rev_image_eqI)
    show ?thesis
      using Cons.IH [OF d mem] ne by (simp add: item split: option.splits)
  qed
qed

lemma payload_foldl_dom:
  "dom (foldl (\<lambda>payload (attr, lookup).
            case getattr given attr of None \<Rightarrow> payload | Some v \<Rightarrow> payload(lookup \<mapsto> v))
     acc mapping)
   = dom acc \<union> {lookup. \<exists>attr. (attr, lookup) \<in> set mapping \<and> getattr given attr \<noteq> None}"
proof (induction mapping arbitrary: acc)
  case Nil
  then show ?case by simp
next
  case (Cons item rest)
  obtain a l where item: "item = (a, l)" by (cases item)
  show ?case
    unfolding item by (cases "getattr given a") (auto simp: Cons.IH split: if_splits)
qed

lemma dom_build_payload:
  "dom (build_payload given mapping)
     = {lookup. \<exists>attr. (attr, lookup) \<in> set mapping \<and> getattr given attr \<noteq> None}"
  by (simp add: build_payload_def payload_foldl_dom)

lemma build_payload_value:
  "distinct (map snd mapping) \<Longrightarrow> (attr, lookup) \<in> set mapping \<Longrightarrow>
     build_payload given mapping lookup = getattr given attr"
  by (simp add: build_payload_def payload_foldl_value split: option.splits)

lemma py_join_Nil_iff:
  "\<forall>x \<in> set xs. x \<noteq> [] \<Longrightarrow> py_join sep xs = [] \<longleftrightarrow> xs = []"
  by (induction sep xs rule: py_join.induct) auto

lemma error_messages_nonempty: "\<forall>m \<in> set (error_messages errs). m \<noteq> []"
  by (auto simp: error_messages_def)

lemma joined_messages_Nil_iff:
  "py_join sep (error_messages errs) = [] \<longleftrightarrow> error_messages errs = []"
  by (rule py_join_Nil_iff) (rule error_messages_nonempty)

text \<open>
  C8. For a filter input with fields \<open>given\<close> and the mapping of a list query, the payload
  handed to the filter-set has exactly the lookups whose field holds a value, each with
  that value (the mappings have distinct lookups); a field that is absent or null adds
  no key. A missing or empty filter input gives the empty payload. When the filter-set
  rejects the payload, the resolver raises one \<open>GraphQLError\<close> whose message is the
  \<open>field: error\<close> strings of all field errors joined with \<open>"; "\<close>; if the filter-set
  rejects without any message, the message is \<open>Invalid filter arguments.\<close>.
\<close>

theorem filter_queryset_payload_and_errors:
  assumes payload: "payload = build_payload given mapping"
    and errs: "errs = fs_errors filterset_cls payload"
  shows
    "dom payload = {lookup. \<exists>attr. (attr, lookup) \<in> set mapping \<and> getattr given attr \<noteq> None} \<and>
     (distinct (map snd mapping) \<and> (attr, lookup) \<in> set mapping \<longrightarrow>
        payload lookup = getattr given attr) \<and>
     (filter_input = None \<or> filter_input = Some [] \<longrightarrow>
        filter_queryset queryset filter_input mapping filterset_cls
          = Inr (fs_qs filterset_cls Map.empty queryset)) \<and>
     (given \<noteq> [] \<and> errs = [] \<longrightarrow>
        filter_queryset queryset (Some given) mapping filterset_cls
          = Inr (fs_qs filterset_cls payload queryset)) \<and>
     (given \<noteq> [] \<and> errs \<noteq> [] \<and> error_messages errs \<noteq> [] \<longrightarrow>
        filter_queryset queryset (Some given) mapping filterset_cls
          = Inl (GraphQLError (py_join ''; '' (error_messages errs))) \<and>
        resolve_list mapping filterset_cls qs_order_by queryset (Some given) order_by
          = Inl (GraphQLError (py_join ''; '' (error_messages errs)))) \<and>
     (given \<noteq> [] \<and> errs \<noteq> [] \<and> error_messages errs = [] \<longrightarrow>
        filter_queryset queryset (Some given) mapping filterset_cls
          = Inl (GraphQLError ''Invalid filter arguments.''))"
  by (auto simp: payload errs dom_build_payload build_payload_value filter_queryset_def
      resolve_list_def Let_def joined_messages_Nil_iff)

theorem filter_queryset_payload_and_errors_witness:
  "distinct (map snd product_mapping) \<and>
   (''name_icontains'', ''name_icontains'') \<in> set product_mapping \<and>
   build_payload [(''price_gte'', Some ''abc''), (''name_icontains'', None),
                  (''price_lte'', Some ''x'')] product_mapping ''name_icontains'' = None \<and>
   fs_errors sample_filterset
       (build_payload [(''price_gte'', Some ''abc''), (''name_icontains'', None),
                       (''price_lte'', Some ''x'')] product_mapping)
     = [(''price_gte'', [''Enter a number.'']), (''price_lte'', [''Enter a number.''])] \<and>
   resolve_all_products sample_filterset (\<lambda>keys queryset. queryset) [''Pen'']
       (Some [(''price_gte'', Some ''abc''), (''name_icontains'', None), (''price_lte'', Some ''x'')])
       None
     = Inl (GraphQLError ''price_gte: Enter a number.; price_lte: Enter a number.'')"
proof -
  let ?given = "[(''price_gte'', Some ''abc''), (''name_icontains'', None), (''price_lte'', Some ''x'')]"
  let ?payload = "build_payload ?given product_mapping"
  let ?errs = "fs_errors sample_filterset ?payload"
  have d: "distinct (map snd product_mapping)"
    by code_simp
  have m: "(''name_icontains'', ''name_icontains'') \<in> set product_mapping"
    by code_simp
  have g: "getattr ?given ''name_icontains'' = None"
    by code_simp
  have e: "?errs = [(''price_gte'', [''Enter a number.'']), (''price_lte'', [''Enter a number.''])]"
    by code_simp
  have j: "py_join ''; '' (error_messages ?errs)
      = ''price_gte: Enter a number.; price_lte: Enter a number.''"
    unfolding e by code_simp
  have ne: "?given \<noteq> []" "?errs \<noteq> []" "error_messages ?errs \<noteq> []"
    unfolding e by (simp_all add: error_messages_def)
  note t = filter_queryset_payload_and_errors [OF refl refl, where given = ?given
      and mapping = product_mapping and filterset_cls = sample_filterset]
  from t [where attr = "''name_icontains''" and lookup = "''name_icontains''"] d m g
  have a: "?payload ''name_icontains'' = None"
    by simp
  from t [where qs_order_by = "\<lambda>keys queryset. queryset" and order_by = None
      and queryset = "[''Pen'']"] ne
  have "resolve_list product_mapping sample_filterset (\<lambda>keys queryset. queryset) [''Pen'']
       (Some ?given) None = Inl (GraphQLError (py_join ''; '' (error_messages ?errs)))"
    by blast
  then have r: "resolve_all_products sample_filterset (\<lambda>keys queryset. queryset) [''Pen'']
       (Some ?given) None
     = Inl (GraphQLError ''price_gte: Enter a number.; price_lte: Enter a number.'')"
    by (simp only: j resolve_all_products_def)
  from d m a e r show ?thesis
    by (intro conjI)
qed

end
